theory Spec2Isabelle
  imports Main
begin

section \<open>Strings\<close>

text \<open>
  JavaScript strings are modelled as \<^typ>\<open>string\<close>: a list of code units, here the
  code units 0..255. The white space of \<^verbatim>\<open>\s\<close> and of \<^verbatim>\<open>String.prototype.trim\<close>
  in that range is TAB, LF, VT, FF, CR, SPACE and NO-BREAK SPACE; the line terminators
  that \<^verbatim>\<open>.\<close> refuses are LF and CR.
\<close>

definition isSpace :: "char \<Rightarrow> bool" where
  "isSpace c = (of_char c \<in> {9, 10, 11, 12, 13, 32, 160 :: nat})"

definition isLineTerminator :: "char \<Rightarrow> bool" where
  "isLineTerminator c = (of_char c \<in> {10, 13 :: nat})"

text \<open>Canonicalisation of the \<^verbatim>\<open>i\<close> flag: ASCII letters are compared in upper case.\<close>

definition canonicalize :: "char \<Rightarrow> char" where
  "canonicalize c =
     (let n = (of_char c :: nat) in if 97 \<le> n \<and> n \<le> 122 then char_of (n - 32) else c)"

text \<open>\<^verbatim>\<open>s.startsWith(p)\<close>\<close>

definition startsWith :: "string \<Rightarrow> string \<Rightarrow> bool" where
  "startsWith s p = (take (length p) s = p)"

text \<open>\<^verbatim>\<open>s.trim()\<close>\<close>

definition trim :: "string \<Rightarrow> string" where
  "trim s = rev (dropWhile isSpace (rev (dropWhile isSpace s)))"

text \<open>
  \<^verbatim>\<open>s.split(/\s+/)\<close>: the pieces between maximal runs of white space; a string that
  begins (or ends) with white space has an empty first (or last) piece, and the empty
  string gives one empty piece.
\<close>

fun splitWs :: "string \<Rightarrow> string list" where
  "splitWs [] = [[]]"
| "splitWs (c # cs) =
     (if isSpace c then
        (case cs of
           [] \<Rightarrow> [[], []]
         | d # _ \<Rightarrow> if isSpace d then splitWs cs else [] # splitWs cs)
      else
        (case splitWs cs of
           [] \<Rightarrow> [[c]]
         | t # ts \<Rightarrow> (c # t) # ts))"

text \<open>\<^verbatim>\<open>s.split(sep)\<close> for a separator of one character.\<close>

fun splitOn :: "char \<Rightarrow> string \<Rightarrow> string list" where
  "splitOn sep [] = [[]]"
| "splitOn sep (c # cs) =
     (if c = sep then [] # splitOn sep cs
      else (case splitOn sep cs of
              [] \<Rightarrow> [[c]]
            | t # ts \<Rightarrow> (c # t) # ts))"

text \<open>\<^verbatim>\<open>xs.join(sep)\<close>\<close>

fun joinWith :: "string \<Rightarrow> string list \<Rightarrow> string" where
  "joinWith sep [] = []"
| "joinWith sep [x] = x"
| "joinWith sep (x # y # ys) = x @ sep @ joinWith sep (y # ys)"

section \<open>Regular expressions of the command denylist\<close>

text \<open>
  The patterns of \<^verbatim>\<open>filterCommand\<close> use literal characters (under the \<^verbatim>\<open>i\<close> flag),
  \<^verbatim>\<open>\s\<close>, \<^verbatim>\<open>.\<close>, the empty group, sequence, alternation and the quantifiers
  \<^verbatim>\<open>*\<close> and \<^verbatim>\<open>+\<close>. \<^verbatim>\<open>RegExp.prototype.test\<close> on a freshly created pattern
  (\<^verbatim>\<open>lastIndex\<close> 0) answers whether some substring of the input is in the language of
  the pattern; the language is decided here by derivatives.
\<close>

datatype regex =
    Never
  | Empty
  | Chr char
  | Ws
  | Dot
  | Seq regex regex
  | Alt regex regex
  | Star regex

fun nullable :: "regex \<Rightarrow> bool" where
  "nullable Never = False"
| "nullable Empty = True"
| "nullable (Chr a) = False"
| "nullable Ws = False"
| "nullable Dot = False"
| "nullable (Seq r s) = (nullable r \<and> nullable s)"
| "nullable (Alt r s) = (nullable r \<or> nullable s)"
| "nullable (Star r) = True"

fun deriv :: "char \<Rightarrow> regex \<Rightarrow> regex" where
  "deriv c Never = Never"
| "deriv c Empty = Never"
| "deriv c (Chr a) = (if canonicalize c = canonicalize a then Empty else Never)"
| "deriv c Ws = (if isSpace c then Empty else Never)"
| "deriv c Dot = (if isLineTerminator c then Never else Empty)"
| "deriv c (Seq r s) =
     (if nullable r then Alt (Seq (deriv c r) s) (deriv c s) else Seq (deriv c r) s)"
| "deriv c (Alt r s) = Alt (deriv c r) (deriv c s)"
| "deriv c (Star r) = Seq (deriv c r) (Star r)"

text \<open>Does the pattern match some prefix of the input?\<close>

fun matchPrefix :: "regex \<Rightarrow> string \<Rightarrow> bool" where
  "matchPrefix r [] = nullable r"
| "matchPrefix r (c # cs) = (nullable r \<or> matchPrefix (deriv c r) cs)"

text \<open>\<^verbatim>\<open>pattern.test(s)\<close>: a match starting at some index of the input.\<close>

fun test :: "regex \<Rightarrow> string \<Rightarrow> bool" where
  "test r [] = nullable r"
| "test r (c # cs) = (matchPrefix r (c # cs) \<or> test r cs)"

fun lit :: "string \<Rightarrow> regex" where
  "lit [] = Empty"
| "lit (c # cs) = Seq (Chr c) (lit cs)"

definition plus :: "regex \<Rightarrow> regex" where
  "plus r = Seq r (Star r)"

fun seqs :: "regex list \<Rightarrow> regex" where
  "seqs [] = Empty"
| "seqs (r # rs) = Seq r (seqs rs)"

section \<open>Policy engine\<close>

record SandboxConfig =
  workspacePath :: string
  enableFileAccess :: bool
  enableCodeExecution :: bool
  enableBashCommands :: bool
  allowedCommands :: "string list"
  timeout :: int

text \<open>
  \<^verbatim>\<open>isCommandAllowed\<close>: the base command is element 0 of
  \<^verbatim>\<open>command.trim().split(/\s+/)\<close>, looked up in the allowlist with \<^verbatim>\<open>includes\<close>.
\<close>

definition isCommandAllowed :: "string \<Rightarrow> string list \<Rightarrow> bool" where
  "isCommandAllowed command allowed =
     (case splitWs (trim command) of
        [] \<Rightarrow> False
      | baseCommand # _ \<Rightarrow> baseCommand \<in> set allowed)"

text \<open>
  The nine patterns, in the order of the source. In the last one, written
  \<^verbatim>\<open>/:(){ :|:& };:/gi\<close>, the parentheses are an empty group, the braces are literal
  and the bar is an alternation: the pattern is \<^verbatim>\<open>:{ :\<close> or \<^verbatim>\<open>:& };:\<close>.
\<close>

definition dangerousPatterns :: "regex list" where
  "dangerousPatterns =
     [ seqs [lit ''rm'', plus Ws, lit ''-rf'', plus Ws, lit ''/''],
       lit ''sudo'',
       seqs [lit ''chmod'', plus Ws, lit ''777''],
       seqs [lit ''curl'', Star Dot, lit ''|'', Star Dot, lit ''sh''],
       seqs [lit ''wget'', Star Dot, lit ''|'', Star Dot, lit ''sh''],
       seqs [lit ''>'', Star Ws, lit ''/dev/sda''],
       lit ''mkfs'',
       seqs [lit ''dd'', plus Ws, lit ''if=''],
       Alt (seqs [lit '':'', Empty, lit ''{ :'']) (lit '':& };:'') ]"

text \<open>
  \<^verbatim>\<open>filterCommand\<close>: \<^verbatim>\<open>null\<close> is \<^term>\<open>None\<close>. The loop over the patterns returns at
  the first one that matches.
\<close>

fun firstMatch :: "regex list \<Rightarrow> string \<Rightarrow> bool" where
  "firstMatch [] command = False"
| "firstMatch (pattern # rest) command =
     (if test pattern command then True else firstMatch rest command)"

definition filterCommand :: "string \<Rightarrow> SandboxConfig \<Rightarrow> string option" where
  "filterCommand command config =
     (if \<not> enableBashCommands config then None
      else if firstMatch dangerousPatterns command then None
      else if \<not> isCommandAllowed command (allowedCommands config) then None
      else Some command)"

section \<open>Paths\<close>

text \<open>
  The functions \<^verbatim>\<open>resolve\<close>, \<^verbatim>\<open>join\<close> and \<^verbatim>\<open>relative\<close> that the source imports
  from \<^verbatim>\<open>node:path\<close>, in their POSIX form. \<^verbatim>\<open>normalizeString\<close> walks the segments of
  a path: empty segments and \<^verbatim>\<open>.\<close> are dropped, \<^verbatim>\<open>..\<close> removes the segment before
  it, and where there is none it is kept only when the path may climb above its root.
\<close>

definition pushSegment :: "bool \<Rightarrow> string list \<Rightarrow> string \<Rightarrow> string list" where
  "pushSegment allowAboveRoot res seg =
     (if seg = [] \<or> seg = ''.'' then res
      else if seg = ''..'' then
        (if res \<noteq> [] \<and> last res \<noteq> ''..'' then butlast res
         else if allowAboveRoot then res @ [''..'']
         else res)
      else res @ [seg])"

definition normalizeString :: "string \<Rightarrow> bool \<Rightarrow> string" where
  "normalizeString path allowAboveRoot =
     joinWith ''/'' (foldl (pushSegment allowAboveRoot) [] (splitOn CHR ''/'' path))"

text \<open>
  \<^verbatim>\<open>resolve(...args)\<close> reads its arguments from the last to the first, then the
  working directory of the process, until the path collected is absolute. The loop
  below takes them in that order.
\<close>

fun resolveLoop :: "string list \<Rightarrow> string \<Rightarrow> string \<times> bool" where
  "resolveLoop [] resolvedPath = (resolvedPath, False)"
| "resolveLoop (p # ps) resolvedPath =
     (if p = [] then resolveLoop ps resolvedPath
      else if startsWith p ''/'' then (p @ ''/'' @ resolvedPath, True)
      else resolveLoop ps (p @ ''/'' @ resolvedPath))"

definition resolve :: "string \<Rightarrow> string list \<Rightarrow> string" where
  "resolve cwd args =
     (case resolveLoop (rev args @ [cwd]) [] of
        (resolvedPath, resolvedAbsolute) \<Rightarrow>
          (let n = normalizeString resolvedPath (\<not> resolvedAbsolute)
           in if resolvedAbsolute then ''/'' @ n
              else if n \<noteq> [] then n else ''.''))"

definition normalize :: "string \<Rightarrow> string" where
  "normalize p =
     (if p = [] then ''.''
      else
        (let isAbsolute = startsWith p ''/'';
             trailingSeparator = (last p = CHR ''/'');
             n = normalizeString p (\<not> isAbsolute)
         in if n = [] then (if isAbsolute then ''/'' else if trailingSeparator then ''./'' else ''.'')
            else (if isAbsolute then ''/'' else []) @ n @ (if trailingSeparator then ''/'' else [])))"

definition join :: "string list \<Rightarrow> string" where
  "join args =
     (case filter (\<lambda>a. a \<noteq> []) args of
        [] \<Rightarrow> ''.''
      | nonempty \<Rightarrow> normalize (joinWith ''/'' nonempty))"

definition segments :: "string \<Rightarrow> string list" where
  "segments p = filter (\<lambda>seg. seg \<noteq> []) (splitOn CHR ''/'' p)"

fun dropCommon :: "string list \<Rightarrow> string list \<Rightarrow> string list \<times> string list" where
  "dropCommon (x # xs) (y # ys) = (if x = y then dropCommon xs ys else (x # xs, y # ys))"
| "dropCommon xs ys = (xs, ys)"

text \<open>
  \<^verbatim>\<open>relative(from, to)\<close>: both are resolved; after their common leading segments, one
  \<^verbatim>\<open>..\<close> for each segment left of \<^verbatim>\<open>from\<close>, then the segments left of \<^verbatim>\<open>to\<close>.
\<close>

definition relative :: "string \<Rightarrow> string \<Rightarrow> string \<Rightarrow> string" where
  "relative cwd from to =
     (if from = to then []
      else
        (let f = resolve cwd [from]; t = resolve cwd [to]
         in if f = t then []
            else (case dropCommon (segments f) (segments t) of
                    (fromRest, toRest) \<Rightarrow>
                      joinWith ''/'' (replicate (length fromRest) ''..'' @ toRest))))"

text \<open>\<^verbatim>\<open>validatePath\<close>; the working directory of the process is a parameter.\<close>

definition validatePath :: "string \<Rightarrow> string \<Rightarrow> string \<Rightarrow> bool" where
  "validatePath cwd filePath workspacePath' =
     (let resolvedPath = resolve cwd [filePath];
          resolvedWorkspace = resolve cwd [workspacePath'];
          relativePath = relative cwd resolvedWorkspace resolvedPath
      in \<not> startsWith relativePath ''..'' \<and> \<not> startsWith filePath ''/'')"

text \<open>
  The containment check as the specification words it: the candidate canonicalises to
  a location at or below the workspace, and its raw form is not an absolute path
  outside the workspace.
\<close>

definition atOrBelow :: "string \<Rightarrow> string \<Rightarrow> string \<Rightarrow> bool" where
  "atOrBelow cwd candidate workspace =
     (let c = segments (resolve cwd [candidate]); w = segments (resolve cwd [workspace])
      in take (length w) c = w)"

definition rawAbsoluteOutside :: "string \<Rightarrow> string \<Rightarrow> bool" where
  "rawAbsoluteOutside candidate workspace =
     (startsWith candidate ''/''
      \<and> \<not> (candidate = workspace \<or> startsWith candidate (workspace @ ''/'')))"

definition spec_isPathContained :: "string \<Rightarrow> string \<Rightarrow> string \<Rightarrow> bool" where
  "spec_isPathContained cwd candidate workspace =
     (atOrBelow cwd candidate workspace \<and> \<not> rawAbsoluteOutside candidate workspace)"

section \<open>Values, effects and errors\<close>

text \<open>
  The values that cross the untyped boundaries (messages of the agent stream, details
  of log entries, the \<^verbatim>\<open>json\<close> of an output item). An object is the list of its
  properties; a property that is absent reads as \<^verbatim>\<open>undefined\<close>. Numbers are the
  integers.
\<close>

datatype jsval =
    JUndefined
  | JNull
  | JBool bool
  | JNum int
  | JStr string
  | JArr "jsval list"
  | JObj "(string \<times> jsval) list"

type_synonym jsobj = "(string \<times> jsval) list"

definition getProp :: "jsobj \<Rightarrow> string \<Rightarrow> jsval" where
  "getProp obj k = (case map_of obj k of None \<Rightarrow> JUndefined | Some v \<Rightarrow> v)"

text \<open>Assignment \<^verbatim>\<open>obj.k = v\<close>: an existing property is overwritten in place.\<close>

fun setProp :: "jsobj \<Rightarrow> string \<Rightarrow> jsval \<Rightarrow> jsobj" where
  "setProp [] k v = [(k, v)]"
| "setProp ((k', v') # rest) k v =
     (if k' = k then (k, v) # rest else (k', v') # setProp rest k v)"

text \<open>\<^verbatim>\<open>v?.k\<close> for the keys read by the supervisor, which no primitive value has.\<close>

definition optProp :: "jsval \<Rightarrow> string \<Rightarrow> jsval" where
  "optProp v k = (case v of JObj obj \<Rightarrow> getProp obj k | _ \<Rightarrow> JUndefined)"

definition truthy :: "jsval \<Rightarrow> bool" where
  "truthy v =
     (case v of
        JUndefined \<Rightarrow> False
      | JNull \<Rightarrow> False
      | JBool b \<Rightarrow> b
      | JNum n \<Rightarrow> n \<noteq> 0
      | JStr s \<Rightarrow> s \<noteq> []
      | JArr _ \<Rightarrow> True
      | JObj _ \<Rightarrow> True)"

text \<open>\<^verbatim>\<open>a || b\<close>\<close>

definition jsOr :: "jsval \<Rightarrow> jsval \<Rightarrow> jsval" where
  "jsOr a b = (if truthy a then a else b)"

datatype error =
    InvalidConfiguration
  | ForbiddenPath
  | WorkspaceCreationFailed string
  | MissingInput nat
  | SdkUnavailable nat
  | CredentialMissing nat
  | CommandBlocked string nat
  | ExecutionTimeout
  | UpstreamStreamError string
  | TypeError string

text \<open>
  What a run does to the outside, in the order in which it does it: entries of the
  audit log, other log entries, and the two file-system calls. The environment of the
  process is state.
\<close>

datatype event =
    Audit string jsobj
  | Info string jsobj
  | Warn string jsobj
  | Mkdir string
  | Rm string

record world =
  events :: "event list"
  processEnv :: "string \<rightharpoonup> string"

definition emit :: "event \<Rightarrow> world \<Rightarrow> world" where
  "emit e w = w\<lparr>events := events w @ [e]\<rparr>"

text \<open>
  What the execution context and the operating system answer during one batch: the
  identifiers of the workflow and of the execution, the sixteen hexadecimal digits
  of \<^verbatim>\<open>randomBytes(8)\<close>, the temporary directory, the working directory, the clock,
  whether \<^verbatim>\<open>mkdir\<close> and \<^verbatim>\<open>rm\<close> fail, and \<^verbatim>\<open>continueOnFail()\<close>.
\<close>

record runtime =
  getWorkflowId :: "string option"
  getExecutionId :: string
  randomId :: string
  tmpdir :: string
  cwd :: string
  now :: nat
  mkdirError :: "string option"
  rmError :: "string option"
  continueOnFail :: bool

section \<open>Workspace manager\<close>

record WorkspaceContext =
  path :: string
  workflowId :: string
  executionId :: string
  created :: nat

definition deniedPaths :: "string list" where
  "deniedPaths = [''/etc'', ''/root'', ''/sys'', ''/proc'', ''/dev'', ''/boot'']"

text \<open>
  \<^verbatim>\<open>createSandboxedWorkspace\<close>. The optional argument is \<^term>\<open>None\<close> when it is
  \<^verbatim>\<open>undefined\<close>; the test \<^verbatim>\<open>if (customPath)\<close> is also false for the empty string.
  The entry \<^term>\<open>Mkdir\<close> stands for a workspace directory that exists after the call.
  When \<^verbatim>\<open>mkdir\<close> fails there is none, and the trace has no entry; parent directories
  that the recursive call may have made before it failed are not part of the trace.
\<close>

definition workspacePathFor :: "runtime \<Rightarrow> string option \<Rightarrow> error + string" where
  "workspacePathFor rt customPath =
     (let wfId = (case getWorkflowId rt of None \<Rightarrow> ''unknown'' | Some i \<Rightarrow> i)
      in case customPath of
           None \<Rightarrow> Inr (join [tmpdir rt, ''n8n-claude-agent'', wfId, randomId rt])
         | Some cp \<Rightarrow>
             if cp = [] then Inr (join [tmpdir rt, ''n8n-claude-agent'', wfId, randomId rt])
             else if \<not> startsWith cp ''/'' then Inl InvalidConfiguration
             else if list_ex (\<lambda>denied. startsWith cp denied) deniedPaths then Inl ForbiddenPath
             else Inr (resolve (cwd rt) [cp, ''claude-agent-'' @ randomId rt]))"

definition createSandboxedWorkspace ::
  "runtime \<Rightarrow> string option \<Rightarrow> world \<Rightarrow> (error + WorkspaceContext) \<times> world" where
  "createSandboxedWorkspace rt customPath w =
     (let wfId = (case getWorkflowId rt of None \<Rightarrow> ''unknown'' | Some i \<Rightarrow> i)
      in case workspacePathFor rt customPath of
           Inl e \<Rightarrow> (Inl e, w)
         | Inr wp \<Rightarrow>
             (case mkdirError rt of
                Some msg \<Rightarrow> (Inl (WorkspaceCreationFailed msg), w)
              | None \<Rightarrow>
                  (Inr \<lparr>path = wp, workflowId = wfId, executionId = getExecutionId rt,
                        created = now rt\<rparr>,
                   emit (Info ''Created sandboxed workspace''
                           [(''workspacePath'', JStr wp), (''workflowId'', JStr wfId),
                            (''executionId'', JStr (getExecutionId rt))])
                     (emit (Mkdir wp) w))))"

text \<open>\<^verbatim>\<open>cleanupSandboxedWorkspace\<close>: a failure of \<^verbatim>\<open>rm\<close> is logged, never raised.\<close>

definition cleanupSandboxedWorkspace :: "runtime \<Rightarrow> WorkspaceContext \<Rightarrow> world \<Rightarrow> world" where
  "cleanupSandboxedWorkspace rt workspace w =
     (let w1 = emit (Rm (path workspace)) w
      in case rmError rt of
           None \<Rightarrow>
             emit (Info ''Cleaned up sandboxed workspace''
                     [(''workspacePath'', JStr (path workspace))]) w1
         | Some msg \<Rightarrow>
             emit (Warn ''Failed to cleanup workspace''
                     [(''workspacePath'', JStr (path workspace)), (''error'', JStr msg)]) w1)"

text \<open>
  \<^verbatim>\<open>createSandboxedEnvironment\<close>. The first argument is the environment of the
  process, which every function of the program can read; the body does not.
\<close>

definition createSandboxedEnvironment ::
  "(string \<rightharpoonup> string) \<Rightarrow> WorkspaceContext \<Rightarrow> (string \<times> string) list" where
  "createSandboxedEnvironment inherited workspace =
     [(''HOME'', path workspace),
      (''PATH'', ''/usr/local/bin:/usr/bin:/bin''),
      (''WORKSPACE'', path workspace),
      (''SHELL'', ''/bin/sh''),
      (''USER'', ''n8n-agent'')]"

section \<open>Result translator and audit sink\<close>

record INodeExecutionData =
  json :: jsobj

text \<open>
  \<^verbatim>\<open>convertAgentMessageToN8nData\<close>. A message is an object; the \<^verbatim>\<open>switch\<close> compares
  its \<^verbatim>\<open>type\<close> with strict equality.
\<close>

definition convertAgentMessageToN8nData :: "jsobj \<Rightarrow> bool \<Rightarrow> INodeExecutionData" where
  "convertAgentMessageToN8nData message returnSteps =
     (let data = [(''type'', getProp message ''type'')];
          ty = getProp message ''type''
      in \<lparr>json =
           (if ty = JStr ''text'' then
              setProp data ''text'' (getProp message ''text'')
            else if ty = JStr ''tool_use'' then
              (if returnSteps then
                 setProp
                   (setProp
                      (setProp data ''tool'' (getProp message ''tool''))
                      ''toolInput'' (getProp message ''input''))
                   ''toolCallId'' (getProp message ''id'')
               else data)
            else if ty = JStr ''tool_result'' then
              (if returnSteps then
                 setProp
                   (setProp data ''toolCallId'' (getProp message ''tool_use_id''))
                   ''toolResult'' (getProp message ''content'')
               else data)
            else if ty = JStr ''result'' then
              setProp data ''output'' (getProp message ''result'')
            else
              setProp data ''message'' (JObj message))\<rparr>)"

text \<open>
  \<^verbatim>\<open>auditLog\<close> appends one entry to the log. The entry carries the action and the
  details given by the caller; the identifiers of the workflow, the execution and the
  node and the time stamp, which the function adds from the context, are left out.
\<close>

definition auditLog :: "string \<Rightarrow> jsobj \<Rightarrow> world \<Rightarrow> world" where
  "auditLog action details w = emit (Audit action details) w"

section \<open>Execution supervisor\<close>

text \<open>
  The options of the node as the caller gave them; \<^term>\<open>None\<close> is an option that is
  not set. The system message and the turn limit reach only the prompt and the
  options handed to the agent stream, whose answer is part of the input below.
\<close>

record options =
  optMaxTurns :: "int option"
  optEnableFileAccess :: "bool option"
  optEnableCodeExecution :: "bool option"
  optEnableBashCommands :: "bool option"
  optAllowedCommands :: "string option"
  optWorkspacePath :: "string option"
  optTimeout :: "int option"
  optReturnIntermediateSteps :: "bool option"
  optEnableStreaming :: "bool option"

text \<open>\<^verbatim>\<open>x !== false\<close>, \<^verbatim>\<open>x === true\<close> and \<^verbatim>\<open>x || d\<close> on an option.\<close>

definition notFalse :: "bool option \<Rightarrow> bool" where
  "notFalse x = (x \<noteq> Some False)"

definition isTrue :: "bool option \<Rightarrow> bool" where
  "isTrue x = (x = Some True)"

definition intOr :: "int option \<Rightarrow> int \<Rightarrow> int" where
  "intOr x d = (case x of None \<Rightarrow> d | Some n \<Rightarrow> if n = 0 then d else n)"

definition stringOr :: "string option \<Rightarrow> string \<Rightarrow> string" where
  "stringOr x d = (case x of None \<Rightarrow> d | Some s \<Rightarrow> if s = [] then d else s)"

definition sandboxConfigOf :: "options \<Rightarrow> SandboxConfig" where
  "sandboxConfigOf opts =
     \<lparr>workspacePath = [],
      enableFileAccess = notFalse (optEnableFileAccess opts),
      enableCodeExecution = notFalse (optEnableCodeExecution opts),
      enableBashCommands = isTrue (optEnableBashCommands opts),
      allowedCommands =
        map trim (splitOn CHR '','' (stringOr (optAllowedCommands opts) ''node,python3,npm,pip,git'')),
      timeout = intOr (optTimeout opts) 300000\<rparr>"

record run_params =
  returnIntermediateSteps :: bool
  enableStreaming :: bool
  sandboxConfig :: SandboxConfig

text \<open>
  One input item, with what the collaborators answer for it: the prompt found for the
  item, whether the agent SDK can be imported, the API key of the credentials, the
  messages that the agent stream yields and how the stream ends. The deadline timer is
  part of the input too: \<^term>\<open>Some k\<close> says that it fires while the consumer, having
  processed \<open>k\<close> messages, waits for the stream; the body of the loop does not wait, so
  the timer cannot fire inside it. A stream that never yields is \<^term>\<open>Some 0\<close>.
\<close>

datatype stream_end = StreamDone | StreamThrows string

record item =
  prompt :: string
  sdkLoads :: bool
  apiKey :: "string option"
  messages :: "jsobj list"
  streamEnd :: stream_end
  timerFiresAfter :: "nat option"

record loop_state =
  agentMessages :: "INodeExecutionData list"
  finalResult :: jsval

text \<open>\<^verbatim>\<open>v.length\<close>, which throws on \<^verbatim>\<open>undefined\<close> and \<^verbatim>\<open>null\<close>.\<close>

definition lengthOf :: "jsval \<Rightarrow> error + jsval" where
  "lengthOf v =
     (case v of
        JUndefined \<Rightarrow> Inl (TypeError ''Cannot read properties of undefined (reading 'length')'')
      | JNull \<Rightarrow> Inl (TypeError ''Cannot read properties of null (reading 'length')'')
      | JStr s \<Rightarrow> Inr (JNum (int (length s)))
      | JArr xs \<Rightarrow> Inr (JNum (int (length xs)))
      | JObj obj \<Rightarrow> Inr (getProp obj ''length'')
      | _ \<Rightarrow> Inr JUndefined)"

text \<open>The block \<^verbatim>\<open>if (msg.type === 'result')\<close> of the loop body.\<close>

definition captureFinalResult ::
  "nat \<Rightarrow> jsobj \<Rightarrow> loop_state \<Rightarrow> world \<Rightarrow> error option \<times> loop_state \<times> world" where
  "captureFinalResult itemIndex msg ls w =
     (if getProp msg ''type'' = JStr ''result'' then
        (let ls' = ls\<lparr>finalResult := getProp msg ''result''\<rparr>
         in case lengthOf (getProp msg ''result'') of
              Inl e \<Rightarrow> (Some e, ls', w)
            | Inr n \<Rightarrow>
                (None, ls',
                 auditLog ''AGENT_COMPLETE''
                   [(''itemIndex'', JNum (int itemIndex)), (''resultLength'', n)] w))
      else (None, ls, w))"

definition isShellTool :: "jsobj \<Rightarrow> bool" where
  "isShellTool msg =
     (getProp msg ''tool'' = JStr ''bash'' \<or> getProp msg ''tool'' = JStr ''execute_command'')"

text \<open>\<^verbatim>\<open>msg.input?.command || msg.input?.cmd\<close>\<close>

definition commandOf :: "jsobj \<Rightarrow> jsval" where
  "commandOf msg =
     jsOr (optProp (getProp msg ''input'') ''command'') (optProp (getProp msg ''input'') ''cmd'')"

text \<open>
  The block \<^verbatim>\<open>if (msg.type === 'tool_use')\<close>: the audit entry, then, for a shell tool
  whose command is a string that is not empty, the filter; a rejected command is
  logged and thrown.
\<close>

definition auditToolUse ::
  "SandboxConfig \<Rightarrow> nat \<Rightarrow> jsobj \<Rightarrow> world \<Rightarrow> error option \<times> world" where
  "auditToolUse config itemIndex msg w =
     (if getProp msg ''type'' = JStr ''tool_use'' then
        (let w1 = auditLog ''TOOL_USE''
                    [(''itemIndex'', JNum (int itemIndex)), (''tool'', getProp msg ''tool''),
                     (''toolInput'', getProp msg ''input'')] w
         in if isShellTool msg then
              (case commandOf msg of
                 JStr command \<Rightarrow>
                   if command \<noteq> [] then
                     (case filterCommand command config of
                        Some (_ # _) \<Rightarrow> (None, w1)
                      | _ \<Rightarrow>
                          (Some (CommandBlocked command itemIndex),
                           emit (Warn ''Blocked dangerous command''
                                   [(''command'', JStr command),
                                    (''itemIndex'', JNum (int itemIndex))]) w1))
                   else (None, w1)
               | _ \<Rightarrow> (None, w1))
            else (None, w1))
      else (None, w))"

text \<open>The body of the \<^verbatim>\<open>for await\<close> loop, for one message.\<close>

definition processMessage ::
  "run_params \<Rightarrow> nat \<Rightarrow> jsobj \<Rightarrow> loop_state \<Rightarrow> world \<Rightarrow> error option \<times> loop_state \<times> world" where
  "processMessage P itemIndex msg ls w =
     (let n8nData = convertAgentMessageToN8nData msg (returnIntermediateSteps P);
          ls1 = (if enableStreaming P
                 then ls\<lparr>agentMessages := agentMessages ls @ [n8nData]\<rparr> else ls)
      in case captureFinalResult itemIndex msg ls1 w of
           (Some e, ls2, w2) \<Rightarrow> (Some e, ls2, w2)
         | (None, ls2, w2) \<Rightarrow>
             (case auditToolUse (sandboxConfig P) itemIndex msg w2 of
                (r, w3) \<Rightarrow> (r, ls2, w3)))"

text \<open>The loop: the messages in order, until the body throws.\<close>

fun consume ::
  "run_params \<Rightarrow> nat \<Rightarrow> jsobj list \<Rightarrow> loop_state \<Rightarrow> world \<Rightarrow> error option \<times> loop_state \<times> world" where
  "consume P itemIndex [] ls w = (None, ls, w)"
| "consume P itemIndex (msg # rest) ls w =
     (case processMessage P itemIndex msg ls w of
        (Some e, ls', w') \<Rightarrow> (Some e, ls', w')
      | (None, ls', w') \<Rightarrow> consume P itemIndex rest ls' w')"

definition installKey :: "string \<Rightarrow> world \<Rightarrow> world" where
  "installKey key w = w\<lparr>processEnv := (processEnv w)(''ANTHROPIC_API_KEY'' \<mapsto> key)\<rparr>"

definition clearKey :: "world \<Rightarrow> world" where
  "clearKey w = w\<lparr>processEnv := (processEnv w)(''ANTHROPIC_API_KEY'' := None)\<rparr>"

text \<open>
  \<^verbatim>\<open>executeAgent\<close>, observed when the race settles. The key is installed, the
  messages delivered so far are consumed, and the \<^verbatim>\<open>finally\<close> block clears the key
  when the loop has ended, by a throw of the body, by the end of the stream or by a
  throw of the stream. While the consumer still waits for the stream (no ending yet)
  the promise is pending and the \<^verbatim>\<open>finally\<close> block has not run.
\<close>

datatype settled = Returned | Threw error | Pending

definition executeAgent ::
  "run_params \<Rightarrow> nat \<Rightarrow> string \<Rightarrow> jsobj list \<Rightarrow> stream_end option \<Rightarrow> world
     \<Rightarrow> settled \<times> loop_state \<times> world" where
  "executeAgent P itemIndex key delivered ending w =
     (case consume P itemIndex delivered \<lparr>agentMessages = [], finalResult = JStr []\<rparr>
             (installKey key w) of
        (Some e, ls, w') \<Rightarrow> (Threw e, ls, clearKey w')
      | (None, ls, w') \<Rightarrow>
          (case ending of
             None \<Rightarrow> (Pending, ls, w')
           | Some StreamDone \<Rightarrow> (Returned, ls, clearKey w')
           | Some (StreamThrows m) \<Rightarrow> (Threw (UpstreamStreamError m), ls, clearKey w')))"

text \<open>
  \<^verbatim>\<open>Promise.race([executeAgent(), timeoutPromise])\<close>: when the timer fires while
  \<^verbatim>\<open>executeAgent\<close> is pending, the race rejects with the timeout and the consumer is
  left as it is; nothing cancels it. The rest of the batch is followed on the schedule
  in which an abandoned consumer receives nothing more, as with a stream that never
  yields; an abandoned consumer never installs a key and touches no file.
\<close>

definition raceWithTimeout ::
  "run_params \<Rightarrow> nat \<Rightarrow> string \<Rightarrow> item \<Rightarrow> world \<Rightarrow> error option \<times> loop_state \<times> world" where
  "raceWithTimeout P itemIndex key it w =
     (let cut = (case timerFiresAfter it of
                   None \<Rightarrow> None
                 | Some k \<Rightarrow> if k \<le> length (messages it) then Some k else None);
          run = (case cut of
                   Some k \<Rightarrow> executeAgent P itemIndex key (take k (messages it)) None w
                 | None \<Rightarrow> executeAgent P itemIndex key (messages it) (Some (streamEnd it)) w)
      in case run of
           (Returned, ls, w') \<Rightarrow> (None, ls, w')
         | (Threw e, ls, w') \<Rightarrow> (Some e, ls, w')
         | (Pending, ls, w') \<Rightarrow> (Some ExecutionTimeout, ls, w'))"

text \<open>The body of the \<^verbatim>\<open>try\<close> for one input item.\<close>

definition processItem ::
  "run_params \<Rightarrow> WorkspaceContext \<Rightarrow> nat \<Rightarrow> item \<Rightarrow> world
     \<Rightarrow> (error + INodeExecutionData list) \<times> world" where
  "processItem P workspace itemIndex it w =
     (if prompt it = [] then (Inl (MissingInput itemIndex), w)
      else
        (let w1 = auditLog ''AGENT_START''
                    [(''itemIndex'', JNum (int itemIndex)),
                     (''promptLength'', JNum (int (length (prompt it)))),
                     (''workspace'', JStr (path workspace))] w
         in if \<not> sdkLoads it then (Inl (SdkUnavailable itemIndex), w1)
            else
              (case apiKey it of
                 None \<Rightarrow> (Inl (CredentialMissing itemIndex), w1)
               | Some key \<Rightarrow>
                   if key = [] then (Inl (CredentialMissing itemIndex), w1)
                   else
                     (case raceWithTimeout P itemIndex key it w1 of
                        (Some e, ls, w2) \<Rightarrow> (Inl e, w2)
                      | (None, ls, w2) \<Rightarrow>
                          (Inr (if enableStreaming P \<and> returnIntermediateSteps P
                                then agentMessages ls
                                else [\<lparr>json = [(''output'', finalResult ls),
                                               (''workspace'', JStr (path workspace))]\<rparr>]),
                           w2)))))"

definition errorMessage :: "error \<Rightarrow> string" where
  "errorMessage e =
     (case e of
        InvalidConfiguration \<Rightarrow> ''Workspace path must be an absolute path''
      | ForbiddenPath \<Rightarrow>
          ''Workspace path cannot be in sensitive system directories: ''
            @ joinWith '', '' deniedPaths
      | WorkspaceCreationFailed m \<Rightarrow> m
      | MissingInput _ \<Rightarrow> ''No prompt provided for Claude Agent''
      | SdkUnavailable _ \<Rightarrow>
          ''Failed to load Claude Agent SDK. Make sure @anthropic-ai/claude-agent-sdk is installed.''
      | CredentialMissing _ \<Rightarrow>
          ''Anthropic API key not found. Please configure Anthropic credentials.''
      | CommandBlocked command _ \<Rightarrow> ''Command blocked by security filters: '' @ command
      | ExecutionTimeout \<Rightarrow> ''Agent execution timeout''
      | UpstreamStreamError m \<Rightarrow> m
      | TypeError m \<Rightarrow> m)"

text \<open>
  The loop over the input items, with the \<^verbatim>\<open>catch\<close> of each item: under
  \<^verbatim>\<open>continueOnFail()\<close> the error becomes an output item and the loop goes on,
  otherwise it is thrown again.
\<close>

fun processItems ::
  "run_params \<Rightarrow> runtime \<Rightarrow> WorkspaceContext \<Rightarrow> nat \<Rightarrow> item list \<Rightarrow> INodeExecutionData list
     \<Rightarrow> world \<Rightarrow> (error + INodeExecutionData list) \<times> world" where
  "processItems P rt workspace itemIndex [] returnData w = (Inr returnData, w)"
| "processItems P rt workspace itemIndex (it # rest) returnData w =
     (case processItem P workspace itemIndex it w of
        (Inr out, w') \<Rightarrow>
          processItems P rt workspace (Suc itemIndex) rest (returnData @ out) w'
      | (Inl e, w') \<Rightarrow>
          if continueOnFail rt then
            processItems P rt workspace (Suc itemIndex) rest
              (returnData @ [\<lparr>json = [(''error'', JStr (errorMessage e)),
                                       (''itemIndex'', JNum (int itemIndex))]\<rparr>]) w'
          else (Inl e, w'))"

text \<open>
  \<^verbatim>\<open>claudeCodeAgentExecute\<close>: the audit entry of the initialisation, the workspace,
  the items, and the \<^verbatim>\<open>finally\<close> block, which cleans up when a workspace exists.
\<close>

definition claudeCodeAgentExecute ::
  "runtime \<Rightarrow> options \<Rightarrow> item list \<Rightarrow> world
     \<Rightarrow> (error + INodeExecutionData list list) \<times> world" where
  "claudeCodeAgentExecute rt opts items w =
     (let config = sandboxConfigOf opts;
          w1 = auditLog ''AGENT_INIT''
                 [(''enableFileAccess'', JBool (enableFileAccess config)),
                  (''enableCodeExecution'', JBool (enableCodeExecution config)),
                  (''enableBashCommands'', JBool (enableBashCommands config)),
                  (''allowedCommands'', JArr (map JStr (allowedCommands config))),
                  (''maxTurns'', JNum (intOr (optMaxTurns opts) 10))] w
      in case createSandboxedWorkspace rt (optWorkspacePath opts) w1 of
           (Inl e, w2) \<Rightarrow> (Inl e, w2)
         | (Inr workspace, w2) \<Rightarrow>
             (case processItems
                     \<lparr>returnIntermediateSteps = isTrue (optReturnIntermediateSteps opts),
                      enableStreaming = notFalse (optEnableStreaming opts),
                      sandboxConfig = config\<lparr>workspacePath := path workspace\<rparr>\<rparr>
                     rt workspace 0 items [] w2 of
                (Inl e, w3) \<Rightarrow> (Inl e, cleanupSandboxedWorkspace rt workspace w3)
              | (Inr returnData, w3) \<Rightarrow>
                  (Inr [returnData], cleanupSandboxedWorkspace rt workspace w3)))"

text \<open>Predicates on the trace and on messages, for the statements below.\<close>

definition isFsEvent :: "event \<Rightarrow> bool" where
  "isFsEvent e = (case e of Mkdir _ \<Rightarrow> True | Rm _ \<Rightarrow> True | _ \<Rightarrow> False)"

definition nonEmptyString :: "jsval \<Rightarrow> bool" where
  "nonEmptyString v = (case v of JStr s \<Rightarrow> s \<noteq> [] | _ \<Rightarrow> False)"

definition carriesCommand :: "jsobj \<Rightarrow> bool" where
  "carriesCommand msg =
     (nonEmptyString (optProp (getProp msg ''input'') ''command'')
      \<or> nonEmptyString (optProp (getProp msg ''input'') ''cmd''))"

text \<open>An audit entry of a shell tool invocation whose command is the given one.\<close>

definition recordsShellCommand :: "string \<Rightarrow> event \<Rightarrow> bool" where
  "recordsShellCommand command e =
     (case e of
        Audit action details \<Rightarrow>
          action = ''TOOL_USE''
          \<and> (getProp details ''tool'' = JStr ''bash''
             \<or> getProp details ''tool'' = JStr ''execute_command'')
          \<and> jsOr (optProp (getProp details ''toolInput'') ''command'')
                  (optProp (getProp details ''toolInput'') ''cmd'') = JStr command
      | _ \<Rightarrow> False)"

text \<open>
  One state of the world extends another without touching the file system: the trace
  has grown by entries that are neither \<^term>\<open>Mkdir\<close> nor \<^term>\<open>Rm\<close>.
\<close>

definition quiet :: "world \<Rightarrow> world \<Rightarrow> bool" where
  "quiet w w' = (\<exists>mid. events w' = events w @ mid \<and> filter isFsEvent mid = [])"

section \<open>Properties of the policy engine\<close>

lemma firstMatch_iff: "firstMatch ps command \<longleftrightarrow> (\<exists>p \<in> set ps. test p command)"
  by (induction ps) auto

text \<open>
  The strings that the comments of the source give for the nine patterns are matched,
  the fork bomb through the second alternative of its pattern.
\<close>

lemma dangerousPatterns_examples:
  "test (dangerousPatterns ! 0) ''rm -rf /''"
  "test (dangerousPatterns ! 1) ''sudo''"
  "test (dangerousPatterns ! 2) ''chmod 777''"
  "test (dangerousPatterns ! 3) ''curl | sh''"
  "test (dangerousPatterns ! 4) ''wget | sh''"
  "test (dangerousPatterns ! 5) ''> /dev/sda''"
  "test (dangerousPatterns ! 6) ''mkfs''"
  "test (dangerousPatterns ! 7) ''dd if=''"
  "test (dangerousPatterns ! 8) '':(){ :|:& };:''"
  by code_simp+

text \<open>A match is kept when the input is extended on either side.\<close>

lemma matchPrefix_nullable: "nullable r \<Longrightarrow> matchPrefix r s"
  by (cases s) simp_all

lemma matchPrefix_append: "matchPrefix r s \<Longrightarrow> matchPrefix r (s @ t)"
  by (induction s arbitrary: r) (auto simp: matchPrefix_nullable)

lemma test_matchPrefix: "matchPrefix r s \<Longrightarrow> test r s"
  by (cases s) simp_all

lemma test_append_right: "test r s \<Longrightarrow> test r (s @ t)"
proof (induction s)
  case Nil
  then show ?case by (simp add: test_matchPrefix matchPrefix_nullable)
next
  case (Cons c s)
  then show ?case using matchPrefix_append [of r "c # s" t] by auto
qed

lemma test_append_left: "test r s \<Longrightarrow> test r (a @ s)"
  by (induction a) simp_all

text \<open>
  A command that contains the fork bomb of the source comment is rejected under every
  policy, since it contains the second alternative of the last pattern.
\<close>

lemma fork_bomb_rejected:
  "filterCommand (a @ '':(){ :|:& };:'' @ b) config = None"
proof -
  have "test (dangerousPatterns ! 8) '':(){ :|:& };:''"
    by code_simp
  then have "test (dangerousPatterns ! 8) (a @ '':(){ :|:& };:'' @ b)"
    using test_append_left test_append_right by blast
  moreover have "dangerousPatterns ! 8 \<in> set dangerousPatterns"
    by (simp add: dangerousPatterns_def)
  ultimately have "firstMatch dangerousPatterns (a @ '':(){ :|:& };:'' @ b)"
    unfolding firstMatch_iff by blast
  then show ?thesis by (simp add: filterCommand_def)
qed

text \<open>
  C2. Deny precedence: a command that one of the nine denylisted patterns matches is
  rejected by \<^verbatim>\<open>filterCommand\<close> (the result is \<^verbatim>\<open>null\<close>) under every policy,
  whatever the allowlist holds.
\<close>

theorem filterCommand_deny_precedence:
  "\<exists>p \<in> set dangerousPatterns. test p command \<Longrightarrow> filterCommand command config = None"
  by (simp add: filterCommand_def firstMatch_iff)

theorem filterCommand_deny_precedence_witness:
  "(\<exists>p \<in> set dangerousPatterns. test p ''sudo ls'')
   \<and> isCommandAllowed ''sudo ls'' [''sudo'', ''node'']
   \<and> filterCommand ''sudo ls''
        \<lparr>workspacePath = ''/tmp/w'', enableFileAccess = True, enableCodeExecution = True,
         enableBashCommands = True, allowedCommands = [''sudo'', ''node''],
         timeout = 300000\<rparr> = None"
proof -
  have "firstMatch dangerousPatterns ''sudo ls''"
    by code_simp
  then have h: "\<exists>p \<in> set dangerousPatterns. test p ''sudo ls''"
    by (simp add: firstMatch_iff)
  have a: "isCommandAllowed ''sudo ls'' [''sudo'', ''node'']"
    by code_simp
  show ?thesis
    using h a filterCommand_deny_precedence [OF h] by simp
qed

text \<open>
  C6. With shell-command execution disabled by the policy, \<^verbatim>\<open>filterCommand\<close> rejects
  every command, whatever its content and whatever the allowlist.
\<close>

theorem filterCommand_bash_disabled:
  "\<not> enableBashCommands config \<Longrightarrow> filterCommand command config = None"
  by (simp add: filterCommand_def)

theorem filterCommand_bash_disabled_witness:
  "\<not> enableBashCommands
        \<lparr>workspacePath = ''/tmp/w'', enableFileAccess = True, enableCodeExecution = True,
         enableBashCommands = False, allowedCommands = [''node''], timeout = 300000\<rparr>
   \<and> isCommandAllowed ''node x.js'' [''node'']
   \<and> \<not> firstMatch dangerousPatterns ''node x.js''
   \<and> filterCommand ''node x.js''
        \<lparr>workspacePath = ''/tmp/w'', enableFileAccess = True, enableCodeExecution = True,
         enableBashCommands = False, allowedCommands = [''node''], timeout = 300000\<rparr> = None"
proof -
  have a: "isCommandAllowed ''node x.js'' [''node'']"
    by code_simp
  have b: "\<not> firstMatch dangerousPatterns ''node x.js''"
    by code_simp
  show ?thesis
    using a b
      filterCommand_bash_disabled [of "\<lparr>workspacePath = ''/tmp/w'', enableFileAccess = True,
         enableCodeExecution = True, enableBashCommands = False, allowedCommands = [''node''],
         timeout = 300000\<rparr>" "''node x.js''"]
    by simp
qed

section \<open>Properties of the path check, the workspace manager and the environment\<close>

text \<open>
  C1, as the specification states it: for an absolute candidate, \<^verbatim>\<open>validatePath\<close>
  would answer as the worded containment check does. It does not: the absolute path
  \<^verbatim>\<open>/ws/a\<close> lies below the workspace \<^verbatim>\<open>/ws\<close> and is not outside it, and is refused.
\<close>

theorem validatePath_absolute_inside_counterexample:
  "\<not> (validatePath ''/home/n8n'' ''/ws/a'' ''/ws''
        \<longleftrightarrow> spec_isPathContained ''/home/n8n'' ''/ws/a'' ''/ws'')"
proof -
  have v: "\<not> validatePath ''/home/n8n'' ''/ws/a'' ''/ws''"
    by (simp add: validatePath_def startsWith_def)
  have c: "spec_isPathContained ''/home/n8n'' ''/ws/a'' ''/ws''"
    by code_simp
  show ?thesis using v c by simp
qed

text \<open>
  C1, amended: \<^verbatim>\<open>validatePath\<close> refuses every absolute candidate path, for every
  workspace and every working directory, also a candidate that canonicalises to a
  location at or below the workspace.
\<close>

theorem validatePath_absolute_rejected:
  "startsWith filePath ''/'' \<Longrightarrow> \<not> validatePath cwd' filePath workspace"
  by (simp add: validatePath_def Let_def)

theorem validatePath_absolute_rejected_witness:
  "startsWith ''/ws/a'' ''/''
   \<and> atOrBelow ''/home/n8n'' ''/ws/a'' ''/ws''
   \<and> \<not> validatePath ''/home/n8n'' ''/ws/a'' ''/ws''"
proof -
  have h: "startsWith ''/ws/a'' ''/''"
    by (simp add: startsWith_def)
  have b: "atOrBelow ''/home/n8n'' ''/ws/a'' ''/ws''"
    by code_simp
  show ?thesis
    using h b validatePath_absolute_rejected [OF h, of "''/home/n8n''" "''/ws''"] by simp
qed

text \<open>
  For comparison, relative candidates: one inside the workspace is accepted, one that
  climbs out is refused.
\<close>

lemma validatePath_relative_examples:
  "validatePath ''/ws'' ''a/b.txt'' ''/ws''"
  "\<not> validatePath ''/ws'' ''../secret'' ''/ws''"
  "\<not> validatePath ''/ws'' ''a/../../secret'' ''/ws''"
  by code_simp+

text \<open>
  C9. \<^verbatim>\<open>createSandboxedEnvironment\<close> returns exactly five variables: \<^verbatim>\<open>HOME\<close> and
  \<^verbatim>\<open>WORKSPACE\<close> are the workspace path, \<^verbatim>\<open>PATH\<close>, \<^verbatim>\<open>SHELL\<close> and \<^verbatim>\<open>USER\<close> are
  constants. The result is the same for any two environments of the process and
  for any other identifiers and creation time of the workspace: it depends on the
  workspace path only.
\<close>

theorem createSandboxedEnvironment_minimal:
  "createSandboxedEnvironment inherited workspace =
     [(''HOME'', path workspace),
      (''PATH'', ''/usr/local/bin:/usr/bin:/bin''),
      (''WORKSPACE'', path workspace),
      (''SHELL'', ''/bin/sh''),
      (''USER'', ''n8n-agent'')]
   \<and> createSandboxedEnvironment inherited' workspace
       = createSandboxedEnvironment inherited workspace
   \<and> createSandboxedEnvironment inherited
         (workspace\<lparr>workflowId := wid, executionId := eid, created := t\<rparr>)
       = createSandboxedEnvironment inherited workspace
   \<and> dom (map_of (createSandboxedEnvironment inherited workspace))
       = {''HOME'', ''PATH'', ''WORKSPACE'', ''SHELL'', ''USER''}"
  by (auto simp: createSandboxedEnvironment_def dom_def split: if_splits)

text \<open>
  C10. An empty custom path is not refused as a path that is not absolute:
  \<^verbatim>\<open>createSandboxedWorkspace\<close> does with it exactly what it does with no custom
  path, and the directory is the join of the temporary directory,
  \<^verbatim>\<open>n8n-claude-agent\<close>, the workflow identifier and the random identifier. The call
  fails only if \<^verbatim>\<open>mkdir\<close> does.
\<close>

theorem createSandboxedWorkspace_empty_custom_path:
  "createSandboxedWorkspace rt (Some []) w = createSandboxedWorkspace rt None w
   \<and> fst (createSandboxedWorkspace rt (Some []) w) \<noteq> Inl InvalidConfiguration
   \<and> (case fst (createSandboxedWorkspace rt (Some []) w) of
        Inr workspace \<Rightarrow>
          path workspace =
            join [tmpdir rt, ''n8n-claude-agent'',
                  (case getWorkflowId rt of None \<Rightarrow> ''unknown'' | Some i \<Rightarrow> i), randomId rt]
      | Inl e \<Rightarrow> (\<exists>msg. mkdirError rt = Some msg \<and> e = WorkspaceCreationFailed msg))"
  by (simp add: createSandboxedWorkspace_def workspacePathFor_def Let_def
           split: option.splits)

theorem createSandboxedWorkspace_empty_custom_path_witness:
  "\<not> startsWith [] ''/''
   \<and> fst (createSandboxedWorkspace
        \<lparr>getWorkflowId = Some ''wf1'', getExecutionId = ''e1'',
         randomId = ''00112233aabbccdd'', tmpdir = ''/tmp'', cwd = ''/home/n8n'', now = 0,
         mkdirError = None, rmError = None, continueOnFail = False\<rparr>
        (Some []) \<lparr>events = [], processEnv = Map.empty\<rparr>)
     = Inr \<lparr>path = ''/tmp/n8n-claude-agent/wf1/00112233aabbccdd'', workflowId = ''wf1'',
            executionId = ''e1'', created = 0\<rparr>"
proof -
  have j: "join [''/tmp'', ''n8n-claude-agent'', ''wf1'', ''00112233aabbccdd'']
           = ''/tmp/n8n-claude-agent/wf1/00112233aabbccdd''"
    by code_simp
  show ?thesis
    using j createSandboxedWorkspace_empty_custom_path
      [of "\<lparr>getWorkflowId = Some ''wf1'', getExecutionId = ''e1'',
         randomId = ''00112233aabbccdd'', tmpdir = ''/tmp'', cwd = ''/home/n8n'', now = 0,
         mkdirError = None, rmError = None, continueOnFail = False\<rparr>"
          "\<lparr>events = [], processEnv = Map.empty\<rparr>"]
    by (simp add: createSandboxedWorkspace_def workspacePathFor_def startsWith_def Let_def)
qed

text \<open>
  A custom path that is not empty and not absolute is refused, and \<^verbatim>\<open>/etc/foo\<close> is
  refused as a sensitive directory, before any directory is created.
\<close>

lemma createSandboxedWorkspace_refusals:
  "createSandboxedWorkspace rt (Some ''data'') w = (Inl InvalidConfiguration, w)"
  "createSandboxedWorkspace rt (Some ''/etc/foo'') w = (Inl ForbiddenPath, w)"
  by (simp_all add: createSandboxedWorkspace_def workspacePathFor_def startsWith_def
        deniedPaths_def)

section \<open>Properties of the result translator\<close>

text \<open>
  C8. For a message of type \<^verbatim>\<open>result\<close> and for both values of the flag, the
  \<^verbatim>\<open>output\<close> field of the translated record is the \<^verbatim>\<open>result\<close> field of the message.
\<close>

theorem translate_result_output:
  "getProp message ''type'' = JStr ''result'' \<Longrightarrow>
     getProp (json (convertAgentMessageToN8nData message returnSteps)) ''output''
       = getProp message ''result''"
  by (simp add: convertAgentMessageToN8nData_def getProp_def)

theorem translate_result_output_witness:
  "getProp [(''type'', JStr ''result''), (''result'', JStr ''done'')] ''type'' = JStr ''result''
   \<and> getProp (json (convertAgentMessageToN8nData
                      [(''type'', JStr ''result''), (''result'', JStr ''done'')] False)) ''output''
       = JStr ''done''
   \<and> getProp (json (convertAgentMessageToN8nData
                      [(''type'', JStr ''result''), (''result'', JStr ''done'')] True)) ''output''
       = JStr ''done''"
proof -
  have h: "getProp [(''type'', JStr ''result''), (''result'', JStr ''done'')] ''type''
           = JStr ''result''"
    by (simp add: getProp_def)
  have r: "getProp [(''type'', JStr ''result''), (''result'', JStr ''done'')] ''result''
           = JStr ''done''"
    by (simp add: getProp_def)
  show ?thesis
    using h r translate_result_output [OF h, of False] translate_result_output [OF h, of True]
    by simp
qed

section \<open>Properties of the execution supervisor\<close>

lemma commandOf_string:
  "commandOf msg = JStr c \<Longrightarrow> c \<noteq> [] \<Longrightarrow> carriesCommand msg"
  by (auto simp: commandOf_def carriesCommand_def jsOr_def nonEmptyString_def split: if_splits)

lemma auditToolUse_unfiltered:
  assumes "getProp msg ''type'' = JStr ''tool_use''"
    and "\<not> (isShellTool msg \<and> carriesCommand msg)"
  shows "auditToolUse config i msg w =
           (None, auditLog ''TOOL_USE''
                    [(''itemIndex'', JNum (int i)), (''tool'', getProp msg ''tool''),
                     (''toolInput'', getProp msg ''input'')] w)"
proof (cases "isShellTool msg")
  case False
  then show ?thesis using assms(1) by (simp add: auditToolUse_def)
next
  case True
  then have nc: "\<not> carriesCommand msg" using assms(2) by simp
  show ?thesis
  proof (cases "commandOf msg")
    case (JStr c)
    then have "c = []" using nc commandOf_string by blast
    then show ?thesis using assms(1) True JStr by (simp add: auditToolUse_def)
  qed (use assms(1) True in \<open>simp_all add: auditToolUse_def\<close>)
qed

lemma captureFinalResult_other:
  "getProp msg ''type'' \<noteq> JStr ''result'' \<Longrightarrow> captureFinalResult i msg ls w = (None, ls, w)"
  by (simp add: captureFinalResult_def)

text \<open>
  C7. A tool invocation is filtered only if its tool is \<^verbatim>\<open>bash\<close> or
  \<^verbatim>\<open>execute_command\<close> and its input carries, under \<^verbatim>\<open>command\<close> or \<^verbatim>\<open>cmd\<close>, a
  string that is not empty. Every other tool invocation passes the loop body without a
  throw: its audit entry is written, and the outcome is the same under every policy,
  whatever \<^verbatim>\<open>enableFileAccess\<close>, \<^verbatim>\<open>enableCodeExecution\<close> and the other fields say.
\<close>

theorem filtering_only_for_shell_commands:
  assumes "getProp msg ''type'' = JStr ''tool_use''"
    and "\<not> (isShellTool msg \<and> carriesCommand msg)"
  shows "processMessage P i msg ls w =
           (None,
            (if enableStreaming P
             then ls\<lparr>agentMessages := agentMessages ls
                        @ [convertAgentMessageToN8nData msg (returnIntermediateSteps P)]\<rparr>
             else ls),
            auditLog ''TOOL_USE''
              [(''itemIndex'', JNum (int i)), (''tool'', getProp msg ''tool''),
               (''toolInput'', getProp msg ''input'')] w)
         \<and> processMessage (P\<lparr>sandboxConfig := config'\<rparr>) i msg ls w = processMessage P i msg ls w"
proof -
  have t: "getProp msg ''type'' \<noteq> JStr ''result''" using assms(1) by simp
  show ?thesis
    by (simp add: processMessage_def Let_def captureFinalResult_other [OF t]
          auditToolUse_unfiltered [OF assms])
qed

theorem filtering_only_for_shell_commands_witness:
  "getProp [(''type'', JStr ''tool_use''), (''tool'', JStr ''write_file''),
            (''input'', JObj [(''command'', JStr ''sudo rm -rf /'')])] ''type'' = JStr ''tool_use''
   \<and> \<not> (isShellTool [(''type'', JStr ''tool_use''), (''tool'', JStr ''write_file''),
            (''input'', JObj [(''command'', JStr ''sudo rm -rf /'')])]
         \<and> carriesCommand [(''type'', JStr ''tool_use''), (''tool'', JStr ''write_file''),
            (''input'', JObj [(''command'', JStr ''sudo rm -rf /'')])])
   \<and> fst (processMessage
        \<lparr>returnIntermediateSteps = False, enableStreaming = False,
         sandboxConfig = \<lparr>workspacePath = ''/tmp/w'', enableFileAccess = False,
           enableCodeExecution = False, enableBashCommands = False, allowedCommands = [],
           timeout = 300000\<rparr>\<rparr>
        0
        [(''type'', JStr ''tool_use''), (''tool'', JStr ''write_file''),
         (''input'', JObj [(''command'', JStr ''sudo rm -rf /'')])]
        \<lparr>agentMessages = [], finalResult = JStr []\<rparr>
        \<lparr>events = [], processEnv = Map.empty\<rparr>) = None"
proof -
  let ?m = "[(''type'', JStr ''tool_use''), (''tool'', JStr ''write_file''),
            (''input'', JObj [(''command'', JStr ''sudo rm -rf /'')])]"
  have h1: "getProp ?m ''type'' = JStr ''tool_use''"
    by (simp add: getProp_def)
  have h2: "\<not> (isShellTool ?m \<and> carriesCommand ?m)"
    by (simp add: isShellTool_def getProp_def)
  show ?thesis
    using h1 h2 filtering_only_for_shell_commands [OF h1 h2,
        of "\<lparr>returnIntermediateSteps = False, enableStreaming = False,
         sandboxConfig = \<lparr>workspacePath = ''/tmp/w'', enableFileAccess = False,
           enableCodeExecution = False, enableBashCommands = False, allowedCommands = [],
           timeout = 300000\<rparr>\<rparr>" 0 "\<lparr>agentMessages = [], finalResult = JStr []\<rparr>"
           "\<lparr>events = [], processEnv = Map.empty\<rparr>"]
    by simp
qed

text \<open>
  For every message, filtered or not, the two policy booleans for file access and
  code execution have no effect on the loop body.
\<close>

lemma auditToolUse_ignores_file_and_code_flags:
  "auditToolUse (config\<lparr>enableFileAccess := a, enableCodeExecution := b\<rparr>) i msg w
     = auditToolUse config i msg w"
proof -
  have fc: "\<And>c. filterCommand c (config\<lparr>enableFileAccess := a, enableCodeExecution := b\<rparr>)
                 = filterCommand c config"
    by (simp add: filterCommand_def)
  show ?thesis
    by (simp add: auditToolUse_def Let_def fc split: jsval.split)
qed

lemma processMessage_ignores_file_and_code_flags:
  "processMessage (P\<lparr>sandboxConfig := (sandboxConfig P)\<lparr>enableFileAccess := a, enableCodeExecution := b\<rparr>\<rparr>) i msg ls w
     = processMessage P i msg ls w"
  by (simp add: processMessage_def Let_def auditToolUse_ignores_file_and_code_flags
        split: prod.split option.split)

text \<open>
  The audit entries of shell invocations with a given command: a message that passes
  the loop body under a policy that rejects the command adds none.
\<close>

lemma consume_append:
  "consume P i (xs @ ys) ls w =
     (case consume P i xs ls w of
        (Some e, ls', w') \<Rightarrow> (Some e, ls', w')
      | (None, ls', w') \<Rightarrow> consume P i ys ls' w')"
  by (induction xs arbitrary: ls w) (auto split: prod.splits option.splits)

lemma recordsShellCommand_simps:
  "\<not> recordsShellCommand c (Warn a d)"
  "\<not> recordsShellCommand c (Info a d)"
  "\<not> recordsShellCommand c (Audit ''AGENT_COMPLETE'' d)"
  by (simp_all add: recordsShellCommand_def)

lemma recordsShellCommand_tool_use:
  "recordsShellCommand c
     (Audit ''TOOL_USE'' [(''itemIndex'', n), (''tool'', getProp msg ''tool''),
                          (''toolInput'', getProp msg ''input'')])
   \<longleftrightarrow> isShellTool msg \<and> commandOf msg = JStr c"
  by (simp add: recordsShellCommand_def isShellTool_def commandOf_def getProp_def)

lemma captureFinalResult_records:
  "captureFinalResult i msg ls w = (r, ls', w') \<Longrightarrow>
     filter (recordsShellCommand c) (events w') = filter (recordsShellCommand c) (events w)"
  by (auto simp: captureFinalResult_def auditLog_def emit_def recordsShellCommand_simps Let_def
        split: if_splits sum.splits)

lemma auditToolUse_passed_records:
  assumes "auditToolUse config i msg w = (None, w')"
    and "filterCommand c config = None" and "c \<noteq> []"
  shows "filter (recordsShellCommand c) (events w') = filter (recordsShellCommand c) (events w)"
proof (cases "getProp msg ''type'' = JStr ''tool_use''")
  case False
  then show ?thesis using assms(1) by (simp add: auditToolUse_def)
next
  case True
  have "\<not> (isShellTool msg \<and> commandOf msg = JStr c)"
  proof
    assume a: "isShellTool msg \<and> commandOf msg = JStr c"
    then have "fst (auditToolUse config i msg w) = Some (CommandBlocked c i)"
      using True assms(2,3) by (simp add: auditToolUse_def Let_def)
    then show False using assms(1) by simp
  qed
  then have n: "\<not> recordsShellCommand c
     (Audit ''TOOL_USE'' [(''itemIndex'', JNum (int i)), (''tool'', getProp msg ''tool''),
                          (''toolInput'', getProp msg ''input'')])"
    by (simp add: recordsShellCommand_tool_use)
  have "events w' = events w @ [Audit ''TOOL_USE'' [(''itemIndex'', JNum (int i)),
            (''tool'', getProp msg ''tool''), (''toolInput'', getProp msg ''input'')]]"
    using assms(1) True
    by (auto simp: auditToolUse_def auditLog_def emit_def Let_def
          split: if_splits jsval.splits option.splits list.splits)
  then show ?thesis using n by simp
qed

lemma processMessage_passed_records:
  assumes "processMessage P i msg ls w = (None, ls', w')"
    and "filterCommand c (sandboxConfig P) = None" and "c \<noteq> []"
  shows "filter (recordsShellCommand c) (events w') = filter (recordsShellCommand c) (events w)"
proof -
  obtain ls2 w2 where c: "captureFinalResult i msg
      (if enableStreaming P
       then ls\<lparr>agentMessages := agentMessages ls
                 @ [convertAgentMessageToN8nData msg (returnIntermediateSteps P)]\<rparr> else ls) w
      = (None, ls2, w2)"
    and a: "auditToolUse (sandboxConfig P) i msg w2 = (None, w')"
    using assms(1)
    by (auto simp: processMessage_def Let_def split: prod.splits option.splits)
  show ?thesis
    using captureFinalResult_records [OF c] auditToolUse_passed_records [OF a assms(2,3)]
    by simp
qed

lemma consume_passed_records:
  assumes "consume P i pre ls w = (None, ls', w')"
    and "filterCommand c (sandboxConfig P) = None" and "c \<noteq> []"
  shows "filter (recordsShellCommand c) (events w') = filter (recordsShellCommand c) (events w)"
  using assms(1)
proof (induction pre arbitrary: ls w)
  case Nil
  then show ?case by simp
next
  case (Cons m pre)
  then obtain ls1 w1 where s: "processMessage P i m ls w = (None, ls1, w1)"
    and r: "consume P i pre ls1 w1 = (None, ls', w')"
    by (auto split: prod.splits option.splits)
  show ?case
    using processMessage_passed_records [OF s assms(2,3)] Cons.IH [OF r] by simp
qed

lemma processMessage_blocked:
  assumes "getProp msg ''type'' = JStr ''tool_use''" and "isShellTool msg"
    and "commandOf msg = JStr c" and "c \<noteq> []"
    and "filterCommand c (sandboxConfig P) = None"
  shows "\<exists>ls'. processMessage P i msg ls w =
           (Some (CommandBlocked c i), ls',
            w\<lparr>events := events w @
                 [Audit ''TOOL_USE'' [(''itemIndex'', JNum (int i)), (''tool'', getProp msg ''tool''),
                                      (''toolInput'', getProp msg ''input'')],
                  Warn ''Blocked dangerous command''
                       [(''command'', JStr c), (''itemIndex'', JNum (int i))]]\<rparr>)"
  using assms
  by (simp add: processMessage_def captureFinalResult_def auditToolUse_def auditLog_def emit_def
        Let_def)

lemma executeAgent_blocked:
  assumes "getProp msg ''type'' = JStr ''tool_use''" and "isShellTool msg"
    and "commandOf msg = JStr c" and "c \<noteq> []"
    and "filterCommand c (sandboxConfig P) = None"
    and "consume P i pre \<lparr>agentMessages = [], finalResult = JStr []\<rparr> (installKey key w)
           = (None, ls1, w1)"
  shows "\<exists>ls'. executeAgent P i key (pre @ msg # post) ending w =
           (Threw (CommandBlocked c i), ls',
            clearKey (w1\<lparr>events := events w1 @
                 [Audit ''TOOL_USE'' [(''itemIndex'', JNum (int i)), (''tool'', getProp msg ''tool''),
                                      (''toolInput'', getProp msg ''input'')],
                  Warn ''Blocked dangerous command''
                       [(''command'', JStr c), (''itemIndex'', JNum (int i))]]\<rparr>))"
proof -
  obtain ls' where b: "processMessage P i msg ls1 w1 =
           (Some (CommandBlocked c i), ls',
            w1\<lparr>events := events w1 @
                 [Audit ''TOOL_USE'' [(''itemIndex'', JNum (int i)), (''tool'', getProp msg ''tool''),
                                      (''toolInput'', getProp msg ''input'')],
                  Warn ''Blocked dangerous command''
                       [(''command'', JStr c), (''itemIndex'', JNum (int i))]]\<rparr>)"
    using processMessage_blocked [OF assms(1-5)] by blast
  show ?thesis
    by (simp add: executeAgent_def consume_append assms(6) b)
qed

lemma events_installKey [simp]: "events (installKey key w) = events w"
  by (simp add: installKey_def)

lemma events_clearKey [simp]: "events (clearKey w) = events w"
  by (simp add: clearKey_def)

text \<open>
  The error of the loop body reaches the item: the race hands on the rejection of
  \<^verbatim>\<open>executeAgent\<close>, provided the timer has not fired before the message arrived, and
  the body of the \<^verbatim>\<open>try\<close> for the item ends with it.
\<close>

lemma take_past_blocked:
  "length pre < k \<Longrightarrow> take k (pre @ msg # post) = pre @ msg # take (k - Suc (length pre)) post"
  by (simp add: take_Cons')

lemma raceWithTimeout_blocked_at:
  assumes "getProp msg ''type'' = JStr ''tool_use''" and "isShellTool msg"
    and "commandOf msg = JStr c" and "c \<noteq> []"
    and "filterCommand c (sandboxConfig P) = None"
    and "consume P i pre \<lparr>agentMessages = [], finalResult = JStr []\<rparr> (installKey key w)
           = (None, ls1, w1)"
    and "messages it = pre @ msg # post"
    and "case timerFiresAfter it of None \<Rightarrow> True | Some k \<Rightarrow> length pre < k"
  shows "\<exists>ls'. raceWithTimeout P i key it w =
           (Some (CommandBlocked c i), ls',
            clearKey (w1\<lparr>events := events w1 @
                 [Audit ''TOOL_USE'' [(''itemIndex'', JNum (int i)), (''tool'', getProp msg ''tool''),
                                      (''toolInput'', getProp msg ''input'')],
                  Warn ''Blocked dangerous command''
                       [(''command'', JStr c), (''itemIndex'', JNum (int i))]]\<rparr>))"
proof -
  have run: "\<And>post' ending. \<exists>ls'. executeAgent P i key (pre @ msg # post') ending w =
           (Threw (CommandBlocked c i), ls',
            clearKey (w1\<lparr>events := events w1 @
                 [Audit ''TOOL_USE'' [(''itemIndex'', JNum (int i)), (''tool'', getProp msg ''tool''),
                                      (''toolInput'', getProp msg ''input'')],
                  Warn ''Blocked dangerous command''
                       [(''command'', JStr c), (''itemIndex'', JNum (int i))]]\<rparr>))"
    using executeAgent_blocked [OF assms(1-6)] by blast
  show ?thesis
  proof (cases "timerFiresAfter it")
    case None
    then show ?thesis
      using run [of post "Some (streamEnd it)"] assms(7)
      by (auto simp: raceWithTimeout_def)
  next
    case (Some k)
    then have k: "length pre < k" using assms(8) by simp
    show ?thesis
    proof (cases "k \<le> length (messages it)")
      case True
      then show ?thesis
        using run [of "take (k - Suc (length pre)) post" None] Some assms(7)
          take_past_blocked [OF k, of msg post]
        by (auto simp: raceWithTimeout_def)
    next
      case False
      then show ?thesis
        using run [of post "Some (streamEnd it)"] Some assms(7)
        by (auto simp: raceWithTimeout_def)
    qed
  qed
qed

lemma processItem_blocked:
  assumes "getProp msg ''type'' = JStr ''tool_use''" and "isShellTool msg"
    and "commandOf msg = JStr c" and "c \<noteq> []"
    and "filterCommand c (sandboxConfig P) = None"
    and "consume P i pre \<lparr>agentMessages = [], finalResult = JStr []\<rparr>
           (installKey key
              (auditLog ''AGENT_START''
                 [(''itemIndex'', JNum (int i)),
                  (''promptLength'', JNum (int (length (prompt it)))),
                  (''workspace'', JStr (path workspace))] w))
           = (None, ls1, w1)"
    and "messages it = pre @ msg # post"
    and "case timerFiresAfter it of None \<Rightarrow> True | Some k \<Rightarrow> length pre < k"
    and "prompt it \<noteq> []" and "sdkLoads it" and "apiKey it = Some key" and "key \<noteq> []"
  shows "processItem P workspace i it w =
           (Inl (CommandBlocked c i),
            clearKey (w1\<lparr>events := events w1 @
                 [Audit ''TOOL_USE'' [(''itemIndex'', JNum (int i)), (''tool'', getProp msg ''tool''),
                                      (''toolInput'', getProp msg ''input'')],
                  Warn ''Blocked dangerous command''
                       [(''command'', JStr c), (''itemIndex'', JNum (int i))]]\<rparr>))"
proof -
  obtain ls' where r: "raceWithTimeout P i key it
           (auditLog ''AGENT_START''
                 [(''itemIndex'', JNum (int i)),
                  (''promptLength'', JNum (int (length (prompt it)))),
                  (''workspace'', JStr (path workspace))] w) =
           (Some (CommandBlocked c i), ls',
            clearKey (w1\<lparr>events := events w1 @
                 [Audit ''TOOL_USE'' [(''itemIndex'', JNum (int i)), (''tool'', getProp msg ''tool''),
                                      (''toolInput'', getProp msg ''input'')],
                  Warn ''Blocked dangerous command''
                       [(''command'', JStr c), (''itemIndex'', JNum (int i))]]\<rparr>))"
    using raceWithTimeout_blocked_at [OF assms(1-8)] by blast
  show ?thesis
    using assms(9-12) r by (simp add: processItem_def Let_def)
qed

lemma recordsShellCommand_start: "\<not> recordsShellCommand c (Audit ''AGENT_START'' d)"
  by (simp add: recordsShellCommand_def)

text \<open>
  C5. An item with a prompt, a loaded SDK and an API key, whose stream delivers, after
  messages that all passed and before the timer fires, a tool invocation of a shell
  tool whose command \<open>c\<close> is a string that \<^verbatim>\<open>filterCommand\<close> rejects: the run of the
  item, through the race, ends at once with the error \<^verbatim>\<open>CommandBlocked\<close>, whose
  message names \<open>c\<close>. What the run logged for the message is one audit entry of the
  tool invocation and then the warning; over the whole run that entry is the only
  audit entry of a shell invocation with the command \<open>c\<close>. The messages after it and
  the end of the stream play no part: the stream is not read again. In the batch, the
  \<^verbatim>\<open>catch\<close> of the item throws the error again, or under \<^verbatim>\<open>continueOnFail()\<close>
  records it for the item and goes on with the next item.
\<close>

theorem blocked_command_aborts_run:
  assumes "getProp msg ''type'' = JStr ''tool_use''" and "isShellTool msg"
    and "commandOf msg = JStr c" and "c \<noteq> []"
    and "filterCommand c (sandboxConfig P) = None"
    and "consume P i pre \<lparr>agentMessages = [], finalResult = JStr []\<rparr>
           (installKey key
              (auditLog ''AGENT_START''
                 [(''itemIndex'', JNum (int i)),
                  (''promptLength'', JNum (int (length (prompt it)))),
                  (''workspace'', JStr (path workspace))] w))
           = (None, ls1, w1)"
    and "messages it = pre @ msg # post"
    and "case timerFiresAfter it of None \<Rightarrow> True | Some k \<Rightarrow> length pre < k"
    and "prompt it \<noteq> []" and "sdkLoads it" and "apiKey it = Some key" and "key \<noteq> []"
  shows "fst (processItem P workspace i it w) = Inl (CommandBlocked c i)
    \<and> errorMessage (CommandBlocked c i) = ''Command blocked by security filters: '' @ c
    \<and> events (snd (processItem P workspace i it w))
        = events w1 @
            [Audit ''TOOL_USE'' [(''itemIndex'', JNum (int i)), (''tool'', getProp msg ''tool''),
                                 (''toolInput'', getProp msg ''input'')],
             Warn ''Blocked dangerous command''
                  [(''command'', JStr c), (''itemIndex'', JNum (int i))]]
    \<and> filter (recordsShellCommand c) (events (snd (processItem P workspace i it w)))
        = filter (recordsShellCommand c) (events w) @
            [Audit ''TOOL_USE'' [(''itemIndex'', JNum (int i)), (''tool'', getProp msg ''tool''),
                                 (''toolInput'', getProp msg ''input'')]]
    \<and> processItems P rt workspace i (it # rest) returnData w
        = (if continueOnFail rt
           then processItems P rt workspace (Suc i) rest
                  (returnData @
                     [\<lparr>json = [(''error'', JStr (''Command blocked by security filters: '' @ c)),
                               (''itemIndex'', JNum (int i))]\<rparr>])
                  (snd (processItem P workspace i it w))
           else (Inl (CommandBlocked c i), snd (processItem P workspace i it w)))"
proof -
  have e: "processItem P workspace i it w =
           (Inl (CommandBlocked c i),
            clearKey (w1\<lparr>events := events w1 @
                 [Audit ''TOOL_USE'' [(''itemIndex'', JNum (int i)), (''tool'', getProp msg ''tool''),
                                      (''toolInput'', getProp msg ''input'')],
                  Warn ''Blocked dangerous command''
                       [(''command'', JStr c), (''itemIndex'', JNum (int i))]]\<rparr>))"
    using processItem_blocked [OF assms] .
  have p: "filter (recordsShellCommand c) (events w1) = filter (recordsShellCommand c) (events w)"
    using consume_passed_records [OF assms(6) assms(5) assms(4)]
    by (simp add: auditLog_def emit_def recordsShellCommand_start)
  have r: "recordsShellCommand c
     (Audit ''TOOL_USE'' [(''itemIndex'', JNum (int i)), (''tool'', getProp msg ''tool''),
                          (''toolInput'', getProp msg ''input'')])"
    using assms(2,3) by (simp add: recordsShellCommand_tool_use)
  have m: "errorMessage (CommandBlocked c i) = ''Command blocked by security filters: '' @ c"
    by (simp add: errorMessage_def)
  show ?thesis
    using e p r m by (simp add: recordsShellCommand_simps)
qed


theorem blocked_command_aborts_run_witness:
  "fst (processItem
      \<lparr>returnIntermediateSteps = False, enableStreaming = True,
       sandboxConfig = \<lparr>workspacePath = ''/tmp/w'', enableFileAccess = True,
         enableCodeExecution = True, enableBashCommands = True, allowedCommands = [''node''],
         timeout = 300000\<rparr>\<rparr>
      \<lparr>path = ''/tmp/w'', workflowId = ''wf1'', executionId = ''e1'', created = 0\<rparr>
      0
      \<lparr>prompt = ''clean up'', sdkLoads = True, apiKey = Some ''sk-test'',
       messages = [] @ [(''type'', JStr ''tool_use''), (''tool'', JStr ''bash''),
                        (''input'', JObj [(''command'', JStr ''sudo rm -rf /'')])]
                     # [[(''type'', JStr ''result''), (''result'', JStr ''done'')]],
       streamEnd = StreamDone, timerFiresAfter = None\<rparr>
      \<lparr>events = [], processEnv = Map.empty\<rparr>)
     = Inl (CommandBlocked ''sudo rm -rf /'' 0)
   \<and> filter (recordsShellCommand ''sudo rm -rf /'')
       (events (snd (processItem
      \<lparr>returnIntermediateSteps = False, enableStreaming = True,
       sandboxConfig = \<lparr>workspacePath = ''/tmp/w'', enableFileAccess = True,
         enableCodeExecution = True, enableBashCommands = True, allowedCommands = [''node''],
         timeout = 300000\<rparr>\<rparr>
      \<lparr>path = ''/tmp/w'', workflowId = ''wf1'', executionId = ''e1'', created = 0\<rparr>
      0
      \<lparr>prompt = ''clean up'', sdkLoads = True, apiKey = Some ''sk-test'',
       messages = [] @ [(''type'', JStr ''tool_use''), (''tool'', JStr ''bash''),
                        (''input'', JObj [(''command'', JStr ''sudo rm -rf /'')])]
                     # [[(''type'', JStr ''result''), (''result'', JStr ''done'')]],
       streamEnd = StreamDone, timerFiresAfter = None\<rparr>
      \<lparr>events = [], processEnv = Map.empty\<rparr>)))
     = [Audit ''TOOL_USE'' [(''itemIndex'', JNum 0), (''tool'', JStr ''bash''),
                            (''toolInput'', JObj [(''command'', JStr ''sudo rm -rf /'')])]]
   \<and> fst (processItems
      \<lparr>returnIntermediateSteps = False, enableStreaming = True,
       sandboxConfig = \<lparr>workspacePath = ''/tmp/w'', enableFileAccess = True,
         enableCodeExecution = True, enableBashCommands = True, allowedCommands = [''node''],
         timeout = 300000\<rparr>\<rparr>
      \<lparr>getWorkflowId = Some ''wf1'', getExecutionId = ''e1'', randomId = ''00112233aabbccdd'',
       tmpdir = ''/tmp'', cwd = ''/home/n8n'', now = 0, mkdirError = None, rmError = None,
       continueOnFail = False\<rparr>
      \<lparr>path = ''/tmp/w'', workflowId = ''wf1'', executionId = ''e1'', created = 0\<rparr>
      0
      [\<lparr>prompt = ''clean up'', sdkLoads = True, apiKey = Some ''sk-test'',
        messages = [] @ [(''type'', JStr ''tool_use''), (''tool'', JStr ''bash''),
                         (''input'', JObj [(''command'', JStr ''sudo rm -rf /'')])]
                      # [[(''type'', JStr ''result''), (''result'', JStr ''done'')]],
        streamEnd = StreamDone, timerFiresAfter = None\<rparr>]
      [] \<lparr>events = [], processEnv = Map.empty\<rparr>)
     = Inl (CommandBlocked ''sudo rm -rf /'' 0)"
proof -
  let ?m = "[(''type'', JStr ''tool_use''), (''tool'', JStr ''bash''),
             (''input'', JObj [(''command'', JStr ''sudo rm -rf /'')])]"
  let ?P = "\<lparr>returnIntermediateSteps = False, enableStreaming = True,
       sandboxConfig = \<lparr>workspacePath = ''/tmp/w'', enableFileAccess = True,
         enableCodeExecution = True, enableBashCommands = True, allowedCommands = [''node''],
         timeout = 300000\<rparr>\<rparr>"
  let ?ws = "\<lparr>path = ''/tmp/w'', workflowId = ''wf1'', executionId = ''e1'', created = 0\<rparr>"
  let ?it = "\<lparr>prompt = ''clean up'', sdkLoads = True, apiKey = Some ''sk-test'',
       messages = [] @ ?m # [[(''type'', JStr ''result''), (''result'', JStr ''done'')]],
       streamEnd = StreamDone, timerFiresAfter = None\<rparr>"
  let ?w = "\<lparr>events = [], processEnv = Map.empty\<rparr>"
  let ?w1 = "installKey ''sk-test''
              (auditLog ''AGENT_START''
                 [(''itemIndex'', JNum (int 0)),
                  (''promptLength'', JNum (int (length (prompt ?it)))),
                  (''workspace'', JStr (path ?ws))] ?w)"
  have h1: "getProp ?m ''type'' = JStr ''tool_use''"
    by (simp add: getProp_def)
  have h2: "isShellTool ?m"
    by (simp add: isShellTool_def getProp_def)
  have h3: "commandOf ?m = JStr ''sudo rm -rf /''"
    by (simp add: commandOf_def getProp_def optProp_def jsOr_def truthy_def)
  have h4: "''sudo rm -rf /'' \<noteq> []"
    by simp
  have "firstMatch dangerousPatterns ''sudo rm -rf /''"
    by code_simp
  then have h5: "filterCommand ''sudo rm -rf /'' (sandboxConfig ?P) = None"
    by (simp add: filterCommand_def)
  have h6: "consume ?P 0 [] \<lparr>agentMessages = [], finalResult = JStr []\<rparr> ?w1
            = (None, \<lparr>agentMessages = [], finalResult = JStr []\<rparr>, ?w1)"
    by simp
  have h7: "messages ?it
            = [] @ ?m # [[(''type'', JStr ''result''), (''result'', JStr ''done'')]]"
    by simp
  have h8: "case timerFiresAfter ?it of None \<Rightarrow> True | Some k \<Rightarrow> length ([] :: jsobj list) < k"
    by simp
  have h9: "prompt ?it \<noteq> []" and h10: "sdkLoads ?it"
    and h11: "apiKey ?it = Some ''sk-test''" and h12: "''sk-test'' \<noteq> []"
    by simp_all
  show ?thesis
    using blocked_command_aborts_run [OF h1 h2 h3 h4 h5 h6 h7 h8 h9 h10 h11 h12,
        where rt = "\<lparr>getWorkflowId = Some ''wf1'', getExecutionId = ''e1'',
           randomId = ''00112233aabbccdd'', tmpdir = ''/tmp'', cwd = ''/home/n8n'', now = 0,
           mkdirError = None, rmError = None, continueOnFail = False\<rparr>"
          and rest = "[]" and returnData = "[]"]
    by (simp add: getProp_def recordsShellCommand_def optProp_def jsOr_def truthy_def
          auditLog_def emit_def)
qed

section \<open>Properties of the workspace lifecycle\<close>

text \<open>
  Nothing between the creation of the workspace and the \<^verbatim>\<open>finally\<close> block touches the
  file system: the loop body, the loop, the race and the items only add log entries.
\<close>

lemma quiet_refl [simp]: "quiet w w"
  by (simp add: quiet_def)

lemma quiet_trans: "quiet w w1 \<Longrightarrow> quiet w1 w2 \<Longrightarrow> quiet w w2"
  by (auto simp: quiet_def)

lemma quiet_same_events: "events w' = events w \<Longrightarrow> quiet w w'"
  by (simp add: quiet_def)

lemma quiet_emit: "\<not> isFsEvent e \<Longrightarrow> quiet w (emit e w)"
  by (simp add: quiet_def emit_def)

lemma quiet_auditLog [simp]: "quiet w (auditLog a d w)"
  by (simp add: auditLog_def quiet_emit isFsEvent_def)

lemma quiet_clearKey: "quiet w w' \<Longrightarrow> quiet w (clearKey w')"
  by (simp add: quiet_def)

lemma quiet_installKey: "quiet (installKey key w) w' \<Longrightarrow> quiet w w'"
  by (simp add: quiet_def)

lemma captureFinalResult_quiet:
  "captureFinalResult i msg ls w = (r, ls', w') \<Longrightarrow> quiet w w'"
  by (auto simp: captureFinalResult_def Let_def split: if_splits sum.splits)

lemma auditToolUse_quiet:
  "auditToolUse config i msg w = (r, w') \<Longrightarrow> quiet w w'"
  by (auto simp: auditToolUse_def Let_def isFsEvent_def
        intro!: quiet_trans [OF quiet_auditLog quiet_emit]
        split: if_splits jsval.splits option.splits list.splits)

lemma processMessage_quiet:
  assumes "processMessage P i msg ls w = (r, ls', w')"
  shows "quiet w w'"
proof -
  let ?ls1 = "if enableStreaming P
       then ls\<lparr>agentMessages := agentMessages ls
                 @ [convertAgentMessageToN8nData msg (returnIntermediateSteps P)]\<rparr> else ls"
  obtain r2 ls2 w2 where c: "captureFinalResult i msg ?ls1 w = (r2, ls2, w2)"
    by (metis prod_cases3)
  show ?thesis
  proof (cases r2)
    case (Some e)
    then have "w' = w2" using assms c by (simp add: processMessage_def Let_def)
    then show ?thesis using captureFinalResult_quiet [OF c] by simp
  next
    case None
    obtain r3 w3 where a: "auditToolUse (sandboxConfig P) i msg w2 = (r3, w3)"
      by (metis surj_pair)
    have "w' = w3" using assms c a None by (simp add: processMessage_def Let_def)
    then show ?thesis
      using quiet_trans [OF captureFinalResult_quiet [OF c] auditToolUse_quiet [OF a]] by simp
  qed
qed

lemma consume_quiet:
  "consume P i msgs ls w = (r, ls', w') \<Longrightarrow> quiet w w'"
proof (induction msgs arbitrary: ls w)
  case Nil
  then show ?case by simp
next
  case (Cons m msgs)
  obtain r1 ls1 w1 where s: "processMessage P i m ls w = (r1, ls1, w1)"
    by (metis prod_cases3)
  show ?case
  proof (cases r1)
    case (Some e)
    then have "w' = w1" using Cons.prems s by simp
    then show ?thesis using processMessage_quiet [OF s] by simp
  next
    case None
    then have "consume P i msgs ls1 w1 = (r, ls', w')" using Cons.prems s by simp
    then show ?thesis
      using quiet_trans [OF processMessage_quiet [OF s] Cons.IH] by blast
  qed
qed

lemma executeAgent_quiet:
  assumes "executeAgent P i key delivered ending w = (r, ls', w')"
  shows "quiet w w'"
proof -
  obtain r1 ls1 w1 where c:
    "consume P i delivered \<lparr>agentMessages = [], finalResult = JStr []\<rparr> (installKey key w)
       = (r1, ls1, w1)"
    by (metis prod_cases3)
  have q: "quiet w w1"
    using quiet_installKey [OF consume_quiet [OF c]] .
  have "events w' = events w1"
    using assms c
    by (auto simp: executeAgent_def split: option.splits stream_end.splits)
  then show ?thesis using q by (simp add: quiet_def)
qed

lemma raceWithTimeout_quiet:
  assumes "raceWithTimeout P i key it w = (r, ls', w')"
  shows "quiet w w'"
proof -
  obtain k d e where "\<exists>s ls. executeAgent P i key d e w = (s, ls, w')"
    using assms
    by (auto simp: raceWithTimeout_def Let_def split: option.splits prod.splits settled.splits if_splits)
  then show ?thesis using executeAgent_quiet by blast
qed

lemma processItem_quiet:
  assumes "processItem P workspace i it w = (r, w')"
  shows "quiet w w'"
proof -
  let ?w1 = "auditLog ''AGENT_START''
                    [(''itemIndex'', JNum (int i)),
                     (''promptLength'', JNum (int (length (prompt it)))),
                     (''workspace'', JStr (path workspace))] w"
  have "w' = w \<or> w' = ?w1 \<or> (\<exists>key e ls. raceWithTimeout P i key it ?w1 = (e, ls, w'))"
    using assms
    by (auto simp: processItem_def Let_def split: if_splits option.splits prod.splits)
  then show ?thesis
    using raceWithTimeout_quiet quiet_trans [OF quiet_auditLog] by fastforce
qed

lemma processItems_quiet:
  "processItems P rt workspace i its returnData w = (r, w') \<Longrightarrow> quiet w w'"
proof (induction its arbitrary: i returnData w)
  case Nil
  then show ?case by simp
next
  case (Cons it its)
  obtain r1 w1 where s: "processItem P workspace i it w = (r1, w1)"
    by (metis surj_pair)
  have q1: "quiet w w1" using processItem_quiet [OF s] .
  show ?case
  proof (cases r1)
    case (Inr out)
    then have "processItems P rt workspace (Suc i) its (returnData @ out) w1 = (r, w')"
      using Cons.prems s by simp
    then show ?thesis using quiet_trans [OF q1 Cons.IH] by blast
  next
    case (Inl e)
    show ?thesis
    proof (cases "continueOnFail rt")
      case True
      then have "processItems P rt workspace (Suc i) its
              (returnData @ [\<lparr>json = [(''error'', JStr (errorMessage e)),
                                       (''itemIndex'', JNum (int i))]\<rparr>]) w1 = (r, w')"
        using Cons.prems s Inl by simp
      then show ?thesis using quiet_trans [OF q1 Cons.IH] by blast
    next
      case False
      then have "w' = w1" using Cons.prems s Inl by simp
      then show ?thesis using q1 by simp
    qed
  qed
qed


lemma claudeCodeAgentExecute_trace:
  assumes "workspacePathFor rt (optWorkspacePath opts) = Inr p"
    and "mkdirError rt = None"
  shows "\<exists>d info mid closing.
           events (snd (claudeCodeAgentExecute rt opts items w))
             = events w @ [Audit ''AGENT_INIT'' d, Mkdir p, info] @ mid @ [Rm p, closing]
           \<and> filter isFsEvent (info # closing # mid) = []"
proof -
  let ?config = "sandboxConfigOf opts"
  let ?d = "[(''enableFileAccess'', JBool (enableFileAccess ?config)),
             (''enableCodeExecution'', JBool (enableCodeExecution ?config)),
             (''enableBashCommands'', JBool (enableBashCommands ?config)),
             (''allowedCommands'', JArr (map JStr (allowedCommands ?config))),
             (''maxTurns'', JNum (intOr (optMaxTurns opts) 10))]"
  let ?w1 = "auditLog ''AGENT_INIT'' ?d w"
  let ?wfId = "case getWorkflowId rt of None \<Rightarrow> ''unknown'' | Some i \<Rightarrow> i"
  let ?ws = "\<lparr>path = p, workflowId = ?wfId, executionId = getExecutionId rt, created = now rt\<rparr>"
  let ?info = "Info ''Created sandboxed workspace''
                 [(''workspacePath'', JStr p), (''workflowId'', JStr ?wfId),
                  (''executionId'', JStr (getExecutionId rt))]"
  let ?w2 = "emit ?info (emit (Mkdir p) ?w1)"
  let ?P = "\<lparr>returnIntermediateSteps = isTrue (optReturnIntermediateSteps opts),
             enableStreaming = notFalse (optEnableStreaming opts),
             sandboxConfig = ?config\<lparr>workspacePath := p\<rparr>\<rparr>"
  have cw: "createSandboxedWorkspace rt (optWorkspacePath opts) ?w1 = (Inr ?ws, ?w2)"
    using assms by (simp add: createSandboxedWorkspace_def Let_def)
  obtain r w3 where pi: "processItems ?P rt ?ws 0 items [] ?w2 = (r, w3)"
    by (metis surj_pair)
  obtain mid where mid: "events w3 = events ?w2 @ mid" "filter isFsEvent mid = []"
    using processItems_quiet [OF pi] by (auto simp: quiet_def)
  obtain closing where cl:
    "events (cleanupSandboxedWorkspace rt ?ws w3) = events w3 @ [Rm p, closing]"
    "\<not> isFsEvent closing"
    by (cases "rmError rt") (simp_all add: cleanupSandboxedWorkspace_def emit_def isFsEvent_def)
  have "snd (claudeCodeAgentExecute rt opts items w) = cleanupSandboxedWorkspace rt ?ws w3"
    using cw pi by (cases r) (simp_all add: claudeCodeAgentExecute_def Let_def)
  then have "events (snd (claudeCodeAgentExecute rt opts items w))
               = events w @ [Audit ''AGENT_INIT'' ?d, Mkdir p, ?info] @ mid @ [Rm p, closing]"
    using cl(1) mid(1) by (simp add: emit_def auditLog_def)
  moreover have "filter isFsEvent (?info # closing # mid) = []"
    using cl(2) mid(2) by (simp add: isFsEvent_def)
  ultimately show ?thesis by blast
qed

lemma no_workspace_without_creation:
  assumes "workspacePathFor rt (optWorkspacePath opts) = Inl e \<or> mkdirError rt \<noteq> None"
  shows "filter isFsEvent (events (snd (claudeCodeAgentExecute rt opts items w)))
           = filter isFsEvent (events w)"
  using assms
  by (auto simp: claudeCodeAgentExecute_def createSandboxedWorkspace_def auditLog_def emit_def
        isFsEvent_def Let_def split: sum.splits option.splits)

text \<open>
  C4, as the specification states it: every batch creates exactly one workspace and
  invokes its destruction exactly once. A batch whose custom workspace path is
  \<^verbatim>\<open>/etc/foo\<close> ends with \<^verbatim>\<open>ForbiddenPath\<close>; it creates no workspace, and the
  \<^verbatim>\<open>finally\<close> block, guarded by \<^verbatim>\<open>if (workspace)\<close>, destroys none.
\<close>

theorem workspace_not_created_counterexample:
  "fst (claudeCodeAgentExecute
      \<lparr>getWorkflowId = Some ''wf1'', getExecutionId = ''e1'', randomId = ''00112233aabbccdd'',
       tmpdir = ''/tmp'', cwd = ''/home/n8n'', now = 0, mkdirError = None, rmError = None,
       continueOnFail = False\<rparr>
      \<lparr>optMaxTurns = None, optEnableFileAccess = None, optEnableCodeExecution = None,
       optEnableBashCommands = None, optAllowedCommands = None,
       optWorkspacePath = Some ''/etc/foo'', optTimeout = None,
       optReturnIntermediateSteps = None, optEnableStreaming = None\<rparr>
      [\<lparr>prompt = ''hello'', sdkLoads = True, apiKey = Some ''sk-test'',
        messages = [[(''type'', JStr ''result''), (''result'', JStr ''done'')]],
        streamEnd = StreamDone, timerFiresAfter = None\<rparr>]
      \<lparr>events = [], processEnv = Map.empty\<rparr>) = Inl ForbiddenPath
   \<and> filter isFsEvent (events (snd (claudeCodeAgentExecute
      \<lparr>getWorkflowId = Some ''wf1'', getExecutionId = ''e1'', randomId = ''00112233aabbccdd'',
       tmpdir = ''/tmp'', cwd = ''/home/n8n'', now = 0, mkdirError = None, rmError = None,
       continueOnFail = False\<rparr>
      \<lparr>optMaxTurns = None, optEnableFileAccess = None, optEnableCodeExecution = None,
       optEnableBashCommands = None, optAllowedCommands = None,
       optWorkspacePath = Some ''/etc/foo'', optTimeout = None,
       optReturnIntermediateSteps = None, optEnableStreaming = None\<rparr>
      [\<lparr>prompt = ''hello'', sdkLoads = True, apiKey = Some ''sk-test'',
        messages = [[(''type'', JStr ''result''), (''result'', JStr ''done'')]],
        streamEnd = StreamDone, timerFiresAfter = None\<rparr>]
      \<lparr>events = [], processEnv = Map.empty\<rparr>))) = []"
  by (simp add: claudeCodeAgentExecute_def createSandboxedWorkspace_def workspacePathFor_def
        startsWith_def deniedPaths_def auditLog_def emit_def isFsEvent_def Let_def)

text \<open>
  C4, amended: in every batch whose workspace creation succeeds, whatever the items,
  their outcomes (success, missing prompt, blocked command, timeout, upstream error)
  and the setting of \<^verbatim>\<open>continueOnFail\<close>, the trace of the batch is the audit entry of
  the initialisation, the creation of the workspace, the entries of the items, none of
  which is a file-system call, and at the end one destruction of that workspace. So
  exactly one workspace is created, before the first item, and its destruction is
  invoked exactly once, after the last.
\<close>

theorem workspace_created_and_destroyed_once:
  assumes "workspacePathFor rt (optWorkspacePath opts) = Inr p"
    and "mkdirError rt = None"
  shows "(\<exists>d info mid closing.
            events (snd (claudeCodeAgentExecute rt opts items w))
              = events w @ [Audit ''AGENT_INIT'' d, Mkdir p, info] @ mid @ [Rm p, closing]
            \<and> filter isFsEvent (info # closing # mid) = [])
       \<and> filter isFsEvent (events (snd (claudeCodeAgentExecute rt opts items w)))
           = filter isFsEvent (events w) @ [Mkdir p, Rm p]"
proof -
  obtain d info mid closing where t:
    "events (snd (claudeCodeAgentExecute rt opts items w))
       = events w @ [Audit ''AGENT_INIT'' d, Mkdir p, info] @ mid @ [Rm p, closing]"
    "filter isFsEvent (info # closing # mid) = []"
    using claudeCodeAgentExecute_trace [OF assms] by blast
  have "filter isFsEvent (events (snd (claudeCodeAgentExecute rt opts items w)))
           = filter isFsEvent (events w) @ [Mkdir p, Rm p]"
    using t by (auto simp: isFsEvent_def split: if_splits)
  then show ?thesis using t by blast
qed

theorem workspace_created_and_destroyed_once_witness:
  "workspacePathFor
      \<lparr>getWorkflowId = Some ''wf1'', getExecutionId = ''e1'', randomId = ''00112233aabbccdd'',
       tmpdir = ''/tmp'', cwd = ''/home/n8n'', now = 0, mkdirError = None, rmError = None,
       continueOnFail = True\<rparr> None
     = Inr ''/tmp/n8n-claude-agent/wf1/00112233aabbccdd''
   \<and> filter isFsEvent (events (snd (claudeCodeAgentExecute
      \<lparr>getWorkflowId = Some ''wf1'', getExecutionId = ''e1'', randomId = ''00112233aabbccdd'',
       tmpdir = ''/tmp'', cwd = ''/home/n8n'', now = 0, mkdirError = None, rmError = None,
       continueOnFail = True\<rparr>
      \<lparr>optMaxTurns = None, optEnableFileAccess = None, optEnableCodeExecution = None,
       optEnableBashCommands = None, optAllowedCommands = None,
       optWorkspacePath = None, optTimeout = None,
       optReturnIntermediateSteps = None, optEnableStreaming = None\<rparr>
      [\<lparr>prompt = [], sdkLoads = True, apiKey = Some ''sk-test'',
        messages = [], streamEnd = StreamDone, timerFiresAfter = None\<rparr>,
       \<lparr>prompt = ''hello'', sdkLoads = True, apiKey = Some ''sk-test'',
        messages = [[(''type'', JStr ''result''), (''result'', JStr ''done'')]],
        streamEnd = StreamDone, timerFiresAfter = None\<rparr>]
      \<lparr>events = [], processEnv = Map.empty\<rparr>)))
     = [Mkdir ''/tmp/n8n-claude-agent/wf1/00112233aabbccdd'',
        Rm ''/tmp/n8n-claude-agent/wf1/00112233aabbccdd'']"
proof -
  let ?rt = "\<lparr>getWorkflowId = Some ''wf1'', getExecutionId = ''e1'',
       randomId = ''00112233aabbccdd'',
       tmpdir = ''/tmp'', cwd = ''/home/n8n'', now = 0, mkdirError = None, rmError = None,
       continueOnFail = True\<rparr>"
  let ?opts = "\<lparr>optMaxTurns = None, optEnableFileAccess = None, optEnableCodeExecution = None,
       optEnableBashCommands = None, optAllowedCommands = None,
       optWorkspacePath = None, optTimeout = None,
       optReturnIntermediateSteps = None, optEnableStreaming = None\<rparr>"
  have j: "join [''/tmp'', ''n8n-claude-agent'', ''wf1'', ''00112233aabbccdd'']
           = ''/tmp/n8n-claude-agent/wf1/00112233aabbccdd''"
    by code_simp
  have h1: "workspacePathFor ?rt (optWorkspacePath ?opts)
            = Inr ''/tmp/n8n-claude-agent/wf1/00112233aabbccdd''"
    using j by (simp add: workspacePathFor_def)
  have h2: "mkdirError ?rt = None"
    by simp
  show ?thesis
    using h1 workspace_created_and_destroyed_once [OF h1 h2,
        of "[\<lparr>prompt = [], sdkLoads = True, apiKey = Some ''sk-test'',
        messages = [], streamEnd = StreamDone, timerFiresAfter = None\<rparr>,
       \<lparr>prompt = ''hello'', sdkLoads = True, apiKey = Some ''sk-test'',
        messages = [[(''type'', JStr ''result''), (''result'', JStr ''done'')]],
        streamEnd = StreamDone, timerFiresAfter = None\<rparr>]"
           "\<lparr>events = [], processEnv = Map.empty\<rparr>"]
    by simp
qed

section \<open>Properties of the credential\<close>

lemma processEnv_emit [simp]: "processEnv (emit e w) = processEnv w"
  by (simp add: emit_def)

lemma processEnv_auditLog [simp]: "processEnv (auditLog a d w) = processEnv w"
  by (simp add: auditLog_def)

lemma captureFinalResult_env:
  "captureFinalResult i msg ls w = (r, ls', w') \<Longrightarrow> processEnv w' = processEnv w"
  by (auto simp: captureFinalResult_def Let_def split: if_splits sum.splits)

lemma auditToolUse_env:
  "auditToolUse config i msg w = (r, w') \<Longrightarrow> processEnv w' = processEnv w"
  by (auto simp: auditToolUse_def Let_def
        split: if_splits jsval.splits option.splits list.splits)

lemma processMessage_env:
  "processMessage P i msg ls w = (r, ls', w') \<Longrightarrow> processEnv w' = processEnv w"
  by (auto simp: processMessage_def Let_def split: prod.splits option.splits
        dest!: captureFinalResult_env auditToolUse_env)

lemma consume_env:
  "consume P i msgs ls w = (r, ls', w') \<Longrightarrow> processEnv w' = processEnv w"
proof (induction msgs arbitrary: ls w)
  case Nil
  then show ?case by simp
next
  case (Cons m msgs)
  obtain r1 ls1 w1 where s: "processMessage P i m ls w = (r1, ls1, w1)"
    by (metis prod_cases3)
  show ?case
  proof (cases r1)
    case (Some e)
    then show ?thesis using Cons.prems s processMessage_env [OF s] by simp
  next
    case None
    then have "consume P i msgs ls1 w1 = (r, ls', w')" using Cons.prems s by simp
    then show ?thesis using Cons.IH processMessage_env [OF s] by simp
  qed
qed

lemma executeAgent_key:
  assumes "executeAgent P i key delivered ending w = (s, ls', w')"
  shows "processEnv w' ''ANTHROPIC_API_KEY'' = (if s = Pending then Some key else None)"
proof -
  obtain r1 ls1 w1 where c:
    "consume P i delivered \<lparr>agentMessages = [], finalResult = JStr []\<rparr> (installKey key w)
       = (r1, ls1, w1)"
    by (metis prod_cases3)
  have k: "processEnv w1 ''ANTHROPIC_API_KEY'' = Some key"
    using consume_env [OF c] by (simp add: installKey_def)
  show ?thesis
    using assms c k
    by (auto simp: executeAgent_def clearKey_def split: option.splits stream_end.splits)
qed

lemma lengthOf_error: "lengthOf v = Inl e \<Longrightarrow> e \<noteq> ExecutionTimeout"
  by (auto simp: lengthOf_def split: jsval.splits)

lemma processMessage_error:
  "processMessage P i msg ls w = (Some e, ls', w') \<Longrightarrow> e \<noteq> ExecutionTimeout"
  by (auto simp: processMessage_def captureFinalResult_def auditToolUse_def Let_def
        dest: lengthOf_error
        split: prod.splits option.splits if_splits sum.splits jsval.splits list.splits)

lemma consume_error:
  "consume P i msgs ls w = (Some e, ls', w') \<Longrightarrow> e \<noteq> ExecutionTimeout"
proof (induction msgs arbitrary: ls w)
  case Nil
  then show ?case by simp
next
  case (Cons m msgs)
  obtain r1 ls1 w1 where s: "processMessage P i m ls w = (r1, ls1, w1)"
    by (metis prod_cases3)
  show ?case
  proof (cases r1)
    case (Some x)
    then show ?thesis using Cons.prems s processMessage_error [OF s [unfolded Some]] by simp
  next
    case None
    then have "consume P i msgs ls1 w1 = (Some e, ls', w')" using Cons.prems s by simp
    then show ?thesis using Cons.IH by blast
  qed
qed

lemma executeAgent_error:
  "executeAgent P i key delivered ending w = (Threw e, ls', w') \<Longrightarrow> e \<noteq> ExecutionTimeout"
  by (auto simp: executeAgent_def dest: consume_error
        split: prod.splits option.splits stream_end.splits)

text \<open>
  The key after the race: cleared on every outcome but the timeout, where the key
  installed for the call is still in the environment.
\<close>

lemma raceWithTimeout_key:
  assumes "raceWithTimeout P i key it w = (r, ls', w')"
  shows "processEnv w' ''ANTHROPIC_API_KEY''
           = (if r = Some ExecutionTimeout then Some key else None)"
proof -
  obtain d e s where run: "executeAgent P i key d e w = (s, ls', w')"
    and r: "r = (case s of Returned \<Rightarrow> None | Threw x \<Rightarrow> Some x | Pending \<Rightarrow> Some ExecutionTimeout)"
    using assms
    by (auto simp: raceWithTimeout_def Let_def
          split: option.splits prod.splits settled.splits if_splits)
  show ?thesis
    using executeAgent_key [OF run] executeAgent_error [of P i key d e w _ ls' w'] run r
    by (cases s) auto
qed

text \<open>
  C3. The claim: on every exit path of a run, the expiry of the deadline timer
  included, the API key placed in the environment of the process is cleared before the
  run returns. The code, for one item whose stream never yields: the timer fires, the
  race rejects with the timeout, the batch ends with that error, and the key is still
  in the environment, because the \<^verbatim>\<open>finally\<close> block of the abandoned consumer has not
  run.
\<close>

theorem timeout_leaves_api_key_installed:
  "fst (claudeCodeAgentExecute
      \<lparr>getWorkflowId = Some ''wf1'', getExecutionId = ''e1'', randomId = ''00112233aabbccdd'',
       tmpdir = ''/tmp'', cwd = ''/home/n8n'', now = 0, mkdirError = None, rmError = None,
       continueOnFail = False\<rparr>
      \<lparr>optMaxTurns = None, optEnableFileAccess = None, optEnableCodeExecution = None,
       optEnableBashCommands = None, optAllowedCommands = None,
       optWorkspacePath = None, optTimeout = Some 50,
       optReturnIntermediateSteps = None, optEnableStreaming = None\<rparr>
      [\<lparr>prompt = ''hello'', sdkLoads = True, apiKey = Some ''sk-test'',
        messages = [], streamEnd = StreamDone, timerFiresAfter = Some 0\<rparr>]
      \<lparr>events = [], processEnv = Map.empty\<rparr>) = Inl ExecutionTimeout
   \<and> processEnv (snd (claudeCodeAgentExecute
      \<lparr>getWorkflowId = Some ''wf1'', getExecutionId = ''e1'', randomId = ''00112233aabbccdd'',
       tmpdir = ''/tmp'', cwd = ''/home/n8n'', now = 0, mkdirError = None, rmError = None,
       continueOnFail = False\<rparr>
      \<lparr>optMaxTurns = None, optEnableFileAccess = None, optEnableCodeExecution = None,
       optEnableBashCommands = None, optAllowedCommands = None,
       optWorkspacePath = None, optTimeout = Some 50,
       optReturnIntermediateSteps = None, optEnableStreaming = None\<rparr>
      [\<lparr>prompt = ''hello'', sdkLoads = True, apiKey = Some ''sk-test'',
        messages = [], streamEnd = StreamDone, timerFiresAfter = Some 0\<rparr>]
      \<lparr>events = [], processEnv = Map.empty\<rparr>)) ''ANTHROPIC_API_KEY'' = Some ''sk-test''"
  by (simp add: claudeCodeAgentExecute_def createSandboxedWorkspace_def workspacePathFor_def
        cleanupSandboxedWorkspace_def processItem_def raceWithTimeout_def executeAgent_def
        installKey_def auditLog_def emit_def Let_def)

end
